theory Spec2Isabelle
  imports Complex_Main "HOL-Library.AList"
begin

section \<open>Numbers, exceptions and strings of the source\<close>

text \<open>
  The source computes with IEEE doubles held in numpy arrays.  An array entry is modelled as
  a \<open>pyfloat\<close>: either the not-a-number value, which every comparison rejects and every
  arithmetic operation propagates, or a finite number on which arithmetic is exact.
  Rounding and the infinities are outside the model.  Scalars that the source never tests
  with \<open>isnan\<close> (frame rate, data rate, scale factors) are reals.
\<close>

datatype pyfloat = NaN | Fin real

datatype py_error = ValueError | ZeroDivisionError | KeyError | IndexError

fun isnan :: "pyfloat \<Rightarrow> bool" where
  "isnan NaN = True"
| "isnan (Fin r) = False"

fun fl_lt :: "pyfloat \<Rightarrow> pyfloat \<Rightarrow> bool" where
  "fl_lt (Fin a) (Fin b) = (a < b)"
| "fl_lt _ _ = False"

fun fl_le :: "pyfloat \<Rightarrow> pyfloat \<Rightarrow> bool" where
  "fl_le (Fin a) (Fin b) = (a \<le> b)"
| "fl_le _ _ = False"

fun fl_add :: "pyfloat \<Rightarrow> pyfloat \<Rightarrow> pyfloat" where
  "fl_add (Fin a) (Fin b) = Fin (a + b)"
| "fl_add _ _ = NaN"

fun fl_sub :: "pyfloat \<Rightarrow> pyfloat \<Rightarrow> pyfloat" where
  "fl_sub (Fin a) (Fin b) = Fin (a - b)"
| "fl_sub _ _ = NaN"

fun fl_scale :: "pyfloat \<Rightarrow> real \<Rightarrow> pyfloat" where
  "fl_scale (Fin a) s = Fin (a * s)"
| "fl_scale NaN s = NaN"

text \<open>Division of an array entry by a scalar; the source only divides by spacings that are not zero.\<close>

fun fl_div :: "pyfloat \<Rightarrow> real \<Rightarrow> pyfloat" where
  "fl_div (Fin a) d = Fin (a / d)"
| "fl_div NaN d = NaN"

fun fl_sq :: "pyfloat \<Rightarrow> pyfloat" where
  "fl_sq (Fin a) = Fin (a ^ 2)"
| "fl_sq NaN = NaN"

fun fl_sqrt :: "pyfloat \<Rightarrow> pyfloat" where
  "fl_sqrt (Fin a) = (if a < 0 then NaN else Fin (sqrt a))"
| "fl_sqrt NaN = NaN"

text \<open>\<open>np.hypot(a, b)\<close>.\<close>

definition fl_hypot :: "pyfloat \<Rightarrow> pyfloat \<Rightarrow> pyfloat" where
  "fl_hypot a b = fl_sqrt (fl_add (fl_sq a) (fl_sq b))"

text \<open>Python's \<open>int()\<close> on a float truncates toward zero and raises on not-a-number.\<close>

definition trunc :: "real \<Rightarrow> int" where
  "trunc r = (if 0 \<le> r then \<lfloor>r\<rfloor> else \<lceil>r\<rceil>)"

fun py_int :: "pyfloat \<Rightarrow> py_error + int" where
  "py_int NaN = Inl ValueError"
| "py_int (Fin r) = Inr (trunc r)"

text \<open>
  Strings are byte strings.  \<open>is_space\<close> is \<open>str.isspace\<close> on ASCII: the codes 9 to 13 and
  28 to 32.
\<close>

definition is_space :: "char \<Rightarrow> bool" where
  "is_space c = (let n = (of_char c :: nat) in (9 \<le> n \<and> n \<le> 13) \<or> (28 \<le> n \<and> n \<le> 32))"

definition TAB :: char where
  "TAB = CHR 0x09"

text \<open>\<open>s.strip()\<close>.\<close>

definition strip :: "string \<Rightarrow> string" where
  "strip s = rev (dropWhile is_space (rev (dropWhile is_space s)))"

text \<open>\<open>s.split(sep)\<close> for a one-character separator: empty fields are kept.\<close>

fun split_on :: "char \<Rightarrow> string \<Rightarrow> string list" where
  "split_on sep [] = [[]]"
| "split_on sep (c # cs) =
     (if c = sep then [] # split_on sep cs
      else (case split_on sep cs of [] \<Rightarrow> [[c]] | w # ws \<Rightarrow> (c # w) # ws))"

text \<open>\<open>s.split()\<close>: the maximal runs of non-space characters.\<close>

fun split_ws_aux :: "string \<Rightarrow> string \<Rightarrow> string list" where
  "split_ws_aux cur [] = (if cur = [] then [] else [rev cur])"
| "split_ws_aux cur (c # cs) =
     (if is_space c then (if cur = [] then split_ws_aux [] cs else rev cur # split_ws_aux [] cs)
      else split_ws_aux (c # cur) cs)"

definition split_ws :: "string \<Rightarrow> string list" where
  "split_ws s = split_ws_aux [] s"

section \<open>Data loaders\<close>

text \<open>
  A marker holds its two coordinate arrays; the loaded trajectory file is the dictionary
  that \<open>load_trc\<close> returns.  Dictionaries keep insertion order, so they are association
  lists updated with \<open>AList.update\<close> (replace in place, else append).
\<close>

record marker =
  mx :: "pyfloat list"
  my :: "pyfloat list"

record trc =
  frame_count :: int
  data_rate :: real
  markers :: "(string \<times> marker) list"
  marker_list :: "string list"
  time :: "pyfloat list"

record mot =
  angles :: "(string \<times> pyfloat list) list"
  angle_list :: "string list"
  mot_time :: "pyfloat list"

text \<open>
  The loop \<open>for i, name in enumerate(marker_names)\<close> of \<open>load_trc\<close>.  \<open>data\<close> is the data
  frame as its list of columns; \<open>data.iloc[:, c]\<close> raises when \<open>c\<close> is not a column.
\<close>

fun load_markers ::
  "pyfloat list list \<Rightarrow> string list \<Rightarrow> nat \<Rightarrow> (string \<times> marker) list \<Rightarrow> (string \<times> marker) list option"
where
  "load_markers data [] i markers_data = Some markers_data"
| "load_markers data (name # rest) i markers_data =
     (let x_col = i * 3 + 2; y_col = i * 3 + 3 in
      if x_col < length data \<and> y_col < length data
      then load_markers data rest (Suc i)
             (AList.update name \<lparr>mx = data ! x_col, my = data ! y_col\<rparr> markers_data)
      else None)"

text \<open>
  \<open>Sports2DLoader.load_trc\<close> on the lines of the file (\<open>readlines\<close> keeps line ends).  The
  library parsers are parameters: \<open>to_float\<close> is \<open>float()\<close>, \<open>to_int\<close> is \<open>int()\<close> on a
  string, and \<open>read_csv\<close> is \<open>pd.read_csv(sep=TAB, header=None)\<close> on the lines left after
  \<open>skiprows=5\<close>, returning the columns; each returns \<open>None\<close> where the library raises.  Any
  exception makes the loader return \<open>None\<close>.
\<close>

definition marker_names_of :: "string \<Rightarrow> string list" where
  "marker_names_of line =
     map strip (filter (\<lambda>n. strip n \<noteq> [] \<and> strip n \<notin> set [''Frame#'', ''Time''])
                       (split_on TAB line))"

definition load_trc ::
  "(string \<Rightarrow> real option) \<Rightarrow> (string \<Rightarrow> int option) \<Rightarrow>
   (string list \<Rightarrow> pyfloat list list option) \<Rightarrow> string list \<Rightarrow> trc option"
where
  "load_trc to_float to_int read_csv lines =
     (if length lines \<le> 2 then None
      else let header_vals = split_ws (lines ! 2) in
        if length header_vals \<le> 0 then None
        else case to_float (header_vals ! 0) of None \<Rightarrow> None | Some rate \<Rightarrow>
          if length header_vals \<le> 2 then None
          else case to_int (header_vals ! 2) of None \<Rightarrow> None | Some num_frames \<Rightarrow>
            if length lines \<le> 3 then None
            else let marker_names = marker_names_of (lines ! 3) in
              case read_csv (drop 5 lines) of None \<Rightarrow> None | Some data \<Rightarrow>
                case load_markers data marker_names 0 [] of None \<Rightarrow> None | Some markers_data \<Rightarrow>
                  if length data \<le> 1 then None
                  else Some \<lparr>frame_count = num_frames, data_rate = rate,
                             markers = markers_data, marker_list = marker_names,
                             time = data ! 1\<rparr>)"

section \<open>Differentiation and smoothing\<close>

text \<open>
  \<open>np.gradient(f, dt)\<close> with a scalar spacing: one-sided differences at the two ends, centred
  differences inside; it raises on fewer than two samples.
\<close>

definition gradient :: "pyfloat list \<Rightarrow> real \<Rightarrow> py_error + pyfloat list" where
  "gradient f dt =
     (let n = length f in
      if n < 2 then Inl ValueError
      else Inr (map (\<lambda>i. if i = 0 then fl_div (fl_sub (f ! 1) (f ! 0)) dt
                         else if i = n - 1 then fl_div (fl_sub (f ! (n - 1)) (f ! (n - 2))) dt
                         else fl_div (fl_sub (f ! (i + 1)) (f ! (i - 1))) (2 * dt))
                    [0..<n]))"

text \<open>
  \<open>scipy.signal.savgol_filter(arr, 11, 3)\<close> in its default mode \<open>interp\<close>.  Row \<open>i\<close> of
  \<open>sg_table\<close>, divided by \<open>sg_denom\<close>, gives the value at position \<open>i\<close> of the least-squares
  cubic through eleven consecutive samples.  Inside the array the filter takes the middle row
  on the window centred at the sample; the first five and the last five outputs are the fitted
  cubic of the first, respectively last, eleven samples evaluated at their positions.
\<close>

definition sg_denom :: int where
  "sg_denom = 858"

definition sg_table :: "int list list" where
  "sg_table =
    [[678, 288, 48, -72, -102, -72, -12, 48, 78, 48, -72],
     [288, 246, 192, 132, 72, 18, -24, -48, -48, -18, 48],
     [48, 192, 246, 232, 172, 88, 2, -64, -88, -48, 78],
     [-72, 132, 232, 251, 212, 138, 52, -23, -64, -48, 48],
     [-102, 72, 172, 212, 206, 168, 112, 52, 2, -24, -12],
     [-72, 18, 88, 138, 168, 178, 168, 138, 88, 18, -72],
     [-12, -24, 2, 52, 112, 168, 206, 212, 172, 72, -102],
     [48, -48, -64, -23, 52, 138, 212, 251, 232, 132, -72],
     [78, -48, -88, -64, 2, 88, 172, 232, 246, 192, 48],
     [48, -18, -48, -48, -24, 18, 72, 132, 192, 246, 288],
     [-72, 48, 78, 48, -12, -72, -102, -72, 48, 288, 678]]"

text \<open>The product of a table of weights with a column of integers.\<close>

definition mat_vec :: "int list list \<Rightarrow> int list \<Rightarrow> int list" where
  "mat_vec m v = map (\<lambda>row. sum_list (map (\<lambda>(a, b). a * b) (zip row v))) m"

fun fl_dot :: "int list \<Rightarrow> pyfloat list \<Rightarrow> pyfloat" where
  "fl_dot (c # cs) (v # vs) = fl_add (fl_scale v (real_of_int c / real_of_int sg_denom)) (fl_dot cs vs)"
| "fl_dot _ _ = Fin 0"

definition savgol_filter :: "pyfloat list \<Rightarrow> pyfloat list" where
  "savgol_filter arr =
     (let n = length arr in
      map (\<lambda>i. if i < 5 then fl_dot (sg_table ! i) (take 11 arr)
               else if i + 5 < n then fl_dot (sg_table ! 5) (take 11 (drop (i - 5) arr))
               else fl_dot (sg_table ! (i + 11 - n)) (drop (n - 11) arr))
          [0..<n])"

text \<open>\<open>smooth(arr, win=11, poly=3)\<close>; every call in the source uses the defaults.\<close>

definition win :: nat where
  "win = 11"

definition smooth :: "pyfloat list \<Rightarrow> pyfloat list" where
  "smooth arr = (if length arr > win then savgol_filter arr else arr)"

text \<open>\<open>np.sqrt(u**2 + v**2)\<close> on two arrays of the same length.\<close>

definition magnitude :: "pyfloat list \<Rightarrow> pyfloat list \<Rightarrow> pyfloat list" where
  "magnitude u v = map (\<lambda>(a, b). fl_sqrt (fl_add (fl_sq a) (fl_sq b))) (zip u v)"

section \<open>Application state\<close>

text \<open>
  The fields of \<open>Sports2DApp\<close> that the handlers below read or write.  \<open>cap\<close> tells whether
  a video capture object exists; \<open>timer_active\<close> and \<open>timer_interval\<close> are the state of the
  playback timer (interval in milliseconds); \<open>pixmap\<close> is the overlay drawn on the frame
  on display and \<open>slider_value\<close> the position of the slider.
\<close>

datatype label = NameLabel string | AngleLabel real

datatype draw_op =
    Line "int \<times> int" "int \<times> int" "int \<times> int \<times> int"
  | Circle "int \<times> int" int "int \<times> int \<times> int"
  | PutText label "int \<times> int" "int \<times> int \<times> int"

datatype status_msg = Msg string | CalibratedMsg real

record app =
  trc_data :: "trc option"
  mot_data :: "mot option"
  current_frame :: int
  total_frames :: int
  fps :: real
  cap :: bool
  timer_active :: bool
  timer_interval :: int
  selected_joint :: "string option"
  px_per_unit :: "real option"
  unit_name :: string
  show_trajectory :: bool
  show_relative_trajectory :: bool
  cache_time :: "pyfloat list option"
  cache_vx :: "pyfloat list option"
  cache_vy :: "pyfloat list option"
  cache_vtotal :: "pyfloat list option"
  cache_ax :: "pyfloat list option"
  cache_ay :: "pyfloat list option"
  cache_atotal :: "pyfloat list option"
  cache_angle :: "pyfloat list option"
  cache_ang_vel :: "pyfloat list option"
  cache_ang_acc :: "pyfloat list option"
  cache_angle_name :: "string option"
  scale_factor :: real
  offset_x :: int
  offset_y :: int
  status :: status_msg
  slider_value :: int
  pixmap :: "draw_op list option"

text \<open>
  A handler mutates the object and may raise: it returns the state as the mutations made
  before the exception left it, and the exception if there was one.
\<close>

type_synonym outcome = "app \<times> py_error option"

text \<open>Truth value of \<open>self.selected_joint\<close>: \<open>None\<close> and the empty string are false.\<close>

fun truthy :: "string option \<Rightarrow> bool" where
  "truthy None = False"
| "truthy (Some s) = (s \<noteq> [])"

section \<open>Kinematics\<close>

definition MARKER_TO_ANGLE :: "(string \<times> string) list" where
  "MARKER_TO_ANGLE =
    [(''RAnkle'', ''right ankle''), (''LAnkle'', ''left ankle''),
     (''RKnee'', ''right knee''), (''LKnee'', ''left knee''),
     (''RHip'', ''right hip''), (''LHip'', ''left hip''),
     (''RShoulder'', ''right shoulder''), (''LShoulder'', ''left shoulder''),
     (''RElbow'', ''right elbow''), (''LElbow'', ''left elbow''),
     (''RWrist'', ''right forearm''), (''LWrist'', ''left forearm''),
     (''RBigToe'', ''right foot''), (''RSmallToe'', ''right foot''), (''RHeel'', ''right foot''),
     (''LBigToe'', ''left foot''), (''LSmallToe'', ''left foot''), (''LHeel'', ''left foot''),
     (''Hip'', ''pelvis''), (''Neck'', ''trunk''), (''Head'', ''head''), (''Nose'', ''head'')]"

text \<open>The scale \<open>s\<close> of \<open>_compute_kinematics\<close>: an unset or zero factor means no scaling.\<close>

definition unit_scale :: "real option \<Rightarrow> real" where
  "unit_scale p = (case p of None \<Rightarrow> 1 | Some u \<Rightarrow> if u = 0 then 1 else 1 / u)"

text \<open>The last part of \<open>_compute_kinematics\<close>: the angle of the selected joint.\<close>

definition clear_angles :: "app \<Rightarrow> app" where
  "clear_angles st = st\<lparr>cache_angle_name := None, cache_angle := None,
                        cache_ang_vel := None, cache_ang_acc := None\<rparr>"

definition angle_kinematics :: "app \<Rightarrow> string \<Rightarrow> pyfloat list \<Rightarrow> real \<Rightarrow> outcome" where
  "angle_kinematics st joint t dt =
     (case map_of MARKER_TO_ANGLE joint of
        None \<Rightarrow> (clear_angles st, None)
      | Some angle_col \<Rightarrow>
          (case (if angle_col = [] then None
                 else case mot_data st of None \<Rightarrow> None | Some m \<Rightarrow> map_of (angles m) angle_col) of
             None \<Rightarrow> (clear_angles st, None)
           | Some raw_angle \<Rightarrow>
               (let n = min (length t) (length raw_angle);
                    st1 = st\<lparr>cache_angle_name := Some angle_col, cache_angle := Some (take n raw_angle)\<rparr>
                in case gradient (take n raw_angle) dt of
                     Inl e \<Rightarrow> (st1, Some e)
                   | Inr ang_vel \<Rightarrow>
                       (let st2 = st1\<lparr>cache_ang_vel := Some (smooth ang_vel)\<rparr>
                        in case gradient (smooth ang_vel) dt of
                             Inl e \<Rightarrow> (st2, Some e)
                           | Inr ang_acc \<Rightarrow> (st2\<lparr>cache_ang_acc := Some (smooth ang_acc)\<rparr>, None)))))"

text \<open>
  The linear part, after the two first derivatives have been taken.  Adding two arrays of
  different lengths raises.
\<close>

definition linear_kinematics :: "app \<Rightarrow> pyfloat list \<Rightarrow> pyfloat list \<Rightarrow> real \<Rightarrow> outcome" where
  "linear_kinematics st vx vy dt =
     (let st1 = st\<lparr>cache_vx := Some (smooth vx), cache_vy := Some (smooth vy)\<rparr> in
      if length vx \<noteq> length vy then (st1, Some ValueError)
      else let st2 = st1\<lparr>cache_vtotal := Some (smooth (magnitude vx vy))\<rparr> in
        case gradient (smooth vx) dt of
          Inl e \<Rightarrow> (st2, Some e)
        | Inr ax \<Rightarrow>
            (case gradient (smooth vy) dt of
               Inl e \<Rightarrow> (st2, Some e)
             | Inr ay \<Rightarrow>
                 (let st3 = st2\<lparr>cache_ax := Some (smooth ax), cache_ay := Some (smooth ay)\<rparr> in
                  if length ax \<noteq> length ay then (st3, Some ValueError)
                  else (st3\<lparr>cache_atotal := Some (smooth (magnitude ax ay))\<rparr>, None))))"

text \<open>\<open>Sports2DApp._compute_kinematics\<close>.\<close>

definition compute_kinematics :: "app \<Rightarrow> outcome" where
  "compute_kinematics st =
     (case trc_data st of
        None \<Rightarrow> (st, None)
      | Some trc \<Rightarrow>
          (case selected_joint st of
             None \<Rightarrow> (st, None)
           | Some joint \<Rightarrow>
               if joint = [] then (st, None)
               else (case map_of (markers trc) joint of
                  None \<Rightarrow> (st, Some KeyError)
                | Some c \<Rightarrow>
                    if data_rate trc = 0 then (st, Some ZeroDivisionError)
                    else
                      (let dt = 1 / data_rate trc;
                           t = time trc;
                           st1 = st\<lparr>cache_time := Some t\<rparr>;
                           s = unit_scale (px_per_unit st)
                       in case gradient (map (\<lambda>v. fl_scale v s) (mx c)) dt of
                            Inl e \<Rightarrow> (st1, Some e)
                          | Inr vx \<Rightarrow>
                              (case gradient (map (\<lambda>v. fl_scale v s) (my c)) dt of
                                 Inl e \<Rightarrow> (st1, Some e)
                               | Inr vy \<Rightarrow>
                                   (case linear_kinematics st1 vx vy dt of
                                      (st2, Some e) \<Rightarrow> (st2, Some e)
                                    | (st2, None) \<Rightarrow> angle_kinematics st2 joint t dt))))))"

section \<open>Overlay rendering\<close>

text \<open>
  Reading an array at an index: a negative index counts from the end, an index outside the
  array raises.  The renderer only reads at frame numbers that are not negative.
\<close>

definition py_get :: "'a list \<Rightarrow> int \<Rightarrow> py_error + 'a" where
  "py_get xs i =
     (if 0 \<le> i \<and> i < int (length xs) then Inr (xs ! nat i)
      else if i < 0 \<and> - int (length xs) \<le> i then Inr (xs ! nat (int (length xs) + i))
      else Inl IndexError)"

definition arr_get :: "'a list \<Rightarrow> nat \<Rightarrow> py_error + 'a" where
  "arr_get xs i = py_get xs (int i)"

definition ebind :: "py_error + 'a \<Rightarrow> ('a \<Rightarrow> py_error + 'b) \<Rightarrow> py_error + 'b" where
  "ebind m f = (case m of Inl e \<Rightarrow> Inl e | Inr a \<Rightarrow> f a)"

text \<open>A loop that draws: it stops at the first iteration that raises.\<close>

fun for_each :: "('a \<Rightarrow> py_error + draw_op list) \<Rightarrow> 'a list \<Rightarrow> py_error + draw_op list" where
  "for_each body [] = Inr []"
| "for_each body (a # as) =
     ebind (body a) (\<lambda>ops. ebind (for_each body as) (\<lambda>rest. Inr (ops @ rest)))"

text \<open>The pixel \<open>(int(x), int(y))\<close>.\<close>

definition pixel :: "pyfloat \<Rightarrow> pyfloat \<Rightarrow> py_error + (int \<times> int)" where
  "pixel x y = ebind (py_int x) (\<lambda>a. ebind (py_int y) (\<lambda>b. Inr (a, b)))"

text \<open>
  The test the renderer and the click handler apply to a sample: its \<open>x\<close> coordinate is
  positive and a number.  The \<open>y\<close> coordinate is not looked at.
\<close>

definition x_present :: "pyfloat \<Rightarrow> bool" where
  "x_present x = (fl_lt (Fin 0) x \<and> \<not> isnan x)"

definition x_absent :: "pyfloat \<Rightarrow> bool" where
  "x_absent x = (fl_le x (Fin 0) \<or> isnan x)"

definition SKELETON_CONNECTIONS :: "(string \<times> string) list" where
  "SKELETON_CONNECTIONS =
    [(''Nose'', ''Neck''), (''Neck'', ''Head''),
     (''Neck'', ''RShoulder''), (''RShoulder'', ''RElbow''), (''RElbow'', ''RWrist''),
     (''Neck'', ''LShoulder''), (''LShoulder'', ''LElbow''), (''LElbow'', ''LWrist''),
     (''Neck'', ''Hip''),
     (''Hip'', ''RHip''), (''RHip'', ''RKnee''), (''RKnee'', ''RAnkle''),
     (''RAnkle'', ''RHeel''), (''RAnkle'', ''RBigToe''), (''RAnkle'', ''RSmallToe''),
     (''Hip'', ''LHip''), (''LHip'', ''LKnee''), (''LKnee'', ''LAnkle''),
     (''LAnkle'', ''LHeel''), (''LAnkle'', ''LBigToe''), (''LAnkle'', ''LSmallToe'')]"

definition CLR_BONE :: "int \<times> int \<times> int" where "CLR_BONE = (180, 180, 180)"
definition CLR_DOT :: "int \<times> int \<times> int" where "CLR_DOT = (255, 255, 255)"
definition CLR_SEL :: "int \<times> int \<times> int" where "CLR_SEL = (80, 255, 80)"
definition CLR_REL :: "int \<times> int \<times> int" where "CLR_REL = (80, 200, 255)"

text \<open>The frames \<open>range(max(0, idx - trail_len), idx)\<close> with \<open>trail_len = min(60, idx)\<close>.\<close>

definition trail_window :: "nat \<Rightarrow> nat list" where
  "trail_window idx = [idx - min 60 idx ..< idx]"

text \<open>One iteration of the absolute trail: the segment from frame \<open>i\<close> to frame \<open>i + 1\<close>.\<close>

definition abs_trail_seg :: "marker \<Rightarrow> nat \<Rightarrow> nat \<Rightarrow> py_error + draw_op list" where
  "abs_trail_seg c idx i =
     (let trail_len = min 60 idx in
      if i < length (mx c) \<and> i + 1 < length (mx c) then
        ebind (arr_get (mx c) i) (\<lambda>x1. ebind (arr_get (my c) i) (\<lambda>y1.
        ebind (arr_get (mx c) (i + 1)) (\<lambda>x2. ebind (arr_get (my c) (i + 1)) (\<lambda>y2.
          if fl_lt (Fin 0) x1 \<and> fl_lt (Fin 0) x2 \<and> \<not> (isnan x1 \<or> isnan x2) then
            (let alpha = trunc (real_of_int (255 * (int i - (int idx - int trail_len)))
                                / real (max trail_len 1))
             in ebind (pixel x1 y1) (\<lambda>p1. ebind (pixel x2 y2) (\<lambda>p2.
                  Inr [Line p1 p2 (min 255 alpha, 200, 80)])))
          else Inr []))))
      else Inr [])"

text \<open>
  One iteration of the reference-relative trail: the two recentred end points of the segment
  from frame \<open>i\<close>, or nothing when the iteration is skipped.  \<open>hip_x\<close>, \<open>hip_y\<close> is the position
  of the reference marker at the current frame.
\<close>

definition rel_trail_points ::
  "marker \<Rightarrow> marker \<Rightarrow> pyfloat \<Rightarrow> pyfloat \<Rightarrow> nat \<Rightarrow>
   py_error + ((pyfloat \<times> pyfloat) \<times> (pyfloat \<times> pyfloat)) option"
where
  "rel_trail_points c hip hip_x hip_y i =
     (if i \<ge> length (mx c) \<or> i + 1 \<ge> length (mx c) \<or> i \<ge> length (mx hip) then Inr None
      else
        ebind (arr_get (mx hip) i) (\<lambda>hx_i. ebind (arr_get (my hip) i) (\<lambda>hy_i.
          if fl_le hx_i (Fin 0) \<or> isnan hx_i then Inr None
          else
            ebind (arr_get (mx c) i) (\<lambda>cx_i. ebind (arr_get (my c) i) (\<lambda>cy_i.
              (let rx1 = fl_add (fl_sub cx_i hx_i) hip_x;
                   ry1 = fl_add (fl_sub cy_i hy_i) hip_y;
                   j = min (i + 1) (length (mx c) - 1)
               in ebind (arr_get (mx hip) (min j (length (mx hip) - 1))) (\<lambda>hx_j.
                  ebind (arr_get (my hip) (min j (length (my hip) - 1))) (\<lambda>hy_j.
                  ebind (arr_get (mx c) j) (\<lambda>cx_j. ebind (arr_get (my c) j) (\<lambda>cy_j.
                    (let rx2 = fl_add (fl_sub cx_j hx_j) hip_x;
                         ry2 = fl_add (fl_sub cy_j hy_j) hip_y
                     in Inr (Some ((rx1, ry1), (rx2, ry2))))))))))))))"

definition rel_trail_seg ::
  "marker \<Rightarrow> marker \<Rightarrow> pyfloat \<Rightarrow> pyfloat \<Rightarrow> nat \<Rightarrow> py_error + draw_op list"
where
  "rel_trail_seg c hip hip_x hip_y i =
     ebind (rel_trail_points c hip hip_x hip_y i) (\<lambda>r.
       case r of
         None \<Rightarrow> Inr []
       | Some ((rx1, ry1), (rx2, ry2)) \<Rightarrow>
           ebind (pixel rx1 ry1) (\<lambda>p1. ebind (pixel rx2 ry2) (\<lambda>p2. Inr [Line p1 p2 CLR_REL])))"

definition rel_trail :: "(string \<times> marker) list \<Rightarrow> marker \<Rightarrow> nat \<Rightarrow> py_error + draw_op list" where
  "rel_trail ms c idx =
     (case map_of ms ''Hip'' of
        None \<Rightarrow> Inr []
      | Some hip \<Rightarrow>
          if idx < length (mx hip) then
            ebind (arr_get (mx hip) idx) (\<lambda>hip_x. ebind (arr_get (my hip) idx) (\<lambda>hip_y.
              if fl_lt (Fin 0) hip_x \<and> \<not> isnan hip_x
              then for_each (rel_trail_seg c hip hip_x hip_y) (trail_window idx)
              else Inr []))
          else Inr [])"

text \<open>One bone of the skeleton.\<close>

definition bone :: "(string \<times> marker) list \<Rightarrow> nat \<Rightarrow> string \<times> string \<Rightarrow> py_error + draw_op list" where
  "bone ms idx ab =
     (case (map_of ms (fst ab), map_of ms (snd ab)) of
        (Some ma, Some mb) \<Rightarrow>
          if idx < length (mx ma) \<and> idx < length (mx mb) then
            ebind (arr_get (mx ma) idx) (\<lambda>x1. ebind (arr_get (my ma) idx) (\<lambda>y1.
            ebind (arr_get (mx mb) idx) (\<lambda>x2. ebind (arr_get (my mb) idx) (\<lambda>y2.
              if fl_lt (Fin 0) x1 \<and> fl_lt (Fin 0) x2 \<and> \<not> (isnan x1 \<or> isnan x2)
              then ebind (pixel x1 y1) (\<lambda>p1. ebind (pixel x2 y2) (\<lambda>p2. Inr [Line p1 p2 CLR_BONE]))
              else Inr []))))
          else Inr []
      | _ \<Rightarrow> Inr [])"

text \<open>The dot of one marker, with the label and the angle when it is the selected one.\<close>

definition dot ::
  "string option \<Rightarrow> pyfloat list option \<Rightarrow> nat \<Rightarrow> string \<times> marker \<Rightarrow> py_error + draw_op list"
where
  "dot sel angle idx nc =
     (let name = fst nc; c = snd nc in
      if idx < length (mx c) then
        ebind (arr_get (mx c) idx) (\<lambda>x. ebind (arr_get (my c) idx) (\<lambda>y.
          if fl_le x (Fin 0) \<or> isnan x then Inr []
          else if Some name = sel then
            ebind (pixel x y) (\<lambda>p.
              (let sel_ops = [Circle p 9 CLR_SEL, PutText (NameLabel name) (fst p + 14, snd p - 14) CLR_SEL]
               in case angle of
                    None \<Rightarrow> Inr sel_ops
                  | Some a \<Rightarrow>
                      if idx < length a then
                        (case a ! idx of
                           NaN \<Rightarrow> Inr sel_ops
                         | Fin ang \<Rightarrow> Inr (sel_ops @ [PutText (AngleLabel ang) (fst p + 14, snd p + 18) CLR_REL]))
                      else Inr sel_ops))
          else ebind (pixel x y) (\<lambda>p. Inr [Circle p 4 CLR_DOT])))
      else Inr [])"

text \<open>The two trails of the selected marker.\<close>

definition trails :: "app \<Rightarrow> (string \<times> marker) list \<Rightarrow> nat \<Rightarrow> py_error + draw_op list" where
  "trails st ms idx =
     (case (case selected_joint st of
              None \<Rightarrow> None
            | Some joint \<Rightarrow> if joint = [] then None else map_of ms joint) of
        None \<Rightarrow> Inr []
      | Some c \<Rightarrow>
          ebind (if show_trajectory st then for_each (abs_trail_seg c idx) (trail_window idx) else Inr [])
            (\<lambda>abs_ops.
          ebind (if show_relative_trajectory st then rel_trail ms c idx else Inr [])
            (\<lambda>rel_ops. Inr (abs_ops @ rel_ops))))"

text \<open>
  \<open>Sports2DApp._draw_overlays\<close>: the drawing operations applied to the frame, in order.  It
  is called from \<open>_set_frame\<close> only, with a frame number that is not negative.
\<close>

definition draw_overlays :: "app \<Rightarrow> nat \<Rightarrow> py_error + draw_op list" where
  "draw_overlays st idx =
     (case trc_data st of
        None \<Rightarrow> Inr []
      | Some trc \<Rightarrow>
          (let ms = markers trc in
           ebind (trails st ms idx) (\<lambda>trail_ops.
           ebind (for_each (bone ms idx) SKELETON_CONNECTIONS) (\<lambda>bone_ops.
           ebind (for_each (dot (selected_joint st) (cache_angle st) idx) ms) (\<lambda>dot_ops.
             Inr (trail_ops @ bone_ops @ dot_ops))))))"

section \<open>Showing a frame\<close>

text \<open>
  What \<open>_set_frame\<close> takes from outside the object: \<open>frame_read idx\<close> is the width and the
  height of the frame the capture decodes at \<open>idx\<close>, or \<open>None\<close> when reading fails;
  \<open>label_w\<close>, \<open>label_h\<close> is the size of the video label.
\<close>

record frame_env =
  frame_read :: "int \<Rightarrow> (int \<times> int) option"
  label_w :: int
  label_h :: int

text \<open>
  \<open>Sports2DApp._set_frame\<close>.  The time label, the graph cursors and the statistics panel
  are display only and have no field in the state.
\<close>

definition set_frame :: "frame_env \<Rightarrow> app \<Rightarrow> int \<Rightarrow> outcome" where
  "set_frame env st idx =
     (if \<not> cap st \<or> idx < 0 \<or> idx \<ge> total_frames st then (st, None)
      else
        (let st1 = st\<lparr>current_frame := idx\<rparr> in
         case frame_read env idx of
           None \<Rightarrow> (st1, None)
         | Some (w, h) \<Rightarrow>
             (case draw_overlays st1 (nat idx) of
                Inl e \<Rightarrow> (st1, Some e)
              | Inr ops \<Rightarrow>
                  (let lw = (if label_w env \<le> 0 \<or> label_h env \<le> 0 then 750 else label_w env);
                       lh = (if label_w env \<le> 0 \<or> label_h env \<le> 0 then 480 else label_h env)
                   in if h = 0 then (st1, Some ZeroDivisionError)
                      else
                        (let ia = real_of_int w / real_of_int h;
                             la = real_of_int lw / real_of_int lh;
                             sw = (if ia > la then lw else trunc (real_of_int lh * ia));
                             sh = (if ia > la then trunc (real_of_int lw / ia) else lh)
                         in if w = 0 then (st1, Some ZeroDivisionError)
                            else (st1\<lparr>scale_factor := real_of_int sw / real_of_int w,
                                       offset_x := (lw - sw) div 2,
                                       offset_y := (lh - sh) div 2,
                                       pixmap := Some ops,
                                       slider_value := idx\<rparr>, None))))))"

section \<open>Display and frame coordinates\<close>

text \<open>
  The conversion of a point on the label to frame pixels, which \<open>_on_video_click\<close> and
  \<open>_on_calibration_line\<close> both write out: \<open>(p.x() - offset_x) / scale_factor\<close> and the same
  for \<open>y\<close>.  Both handlers raise when the scale factor is zero.
\<close>

definition to_frame :: "app \<Rightarrow> int \<times> int \<Rightarrow> real \<times> real" where
  "to_frame st p =
     (real_of_int (fst p - offset_x st) / scale_factor st,
      real_of_int (snd p - offset_y st) / scale_factor st)"

section \<open>Click to select\<close>

text \<open>
  The scan of \<open>_on_video_click\<close> over \<open>markers.items()\<close>, from \<open>best, best_d = None, 50\<close>;
  \<open>vx\<close>, \<open>vy\<close> is the click in frame pixels and \<open>cf\<close> the current frame.
\<close>

fun scan_markers ::
  "real \<Rightarrow> real \<Rightarrow> int \<Rightarrow> (string \<times> marker) list \<Rightarrow> string option \<times> pyfloat \<Rightarrow>
   py_error + (string option \<times> pyfloat)"
where
  "scan_markers vx vy cf [] acc = Inr acc"
| "scan_markers vx vy cf ((name, c) # rest) (best, best_d) =
     (if cf < int (length (mx c)) then
        ebind (py_get (mx c) cf) (\<lambda>m_x. ebind (py_get (my c) cf) (\<lambda>m_y.
          if fl_le m_x (Fin 0) \<or> isnan m_x then scan_markers vx vy cf rest (best, best_d)
          else
            (let d = fl_hypot (fl_sub m_x (Fin vx)) (fl_sub m_y (Fin vy)) in
             if fl_lt d best_d then scan_markers vx vy cf rest (Some name, d)
             else scan_markers vx vy cf rest (best, best_d))))
      else scan_markers vx vy cf rest (best, best_d))"

text \<open>\<open>Sports2DApp._on_video_click\<close>; \<open>pos\<close> is the click in display coordinates.\<close>

definition on_video_click :: "frame_env \<Rightarrow> app \<Rightarrow> int \<times> int \<Rightarrow> outcome" where
  "on_video_click env st pos =
     (case trc_data st of
        None \<Rightarrow> (st, None)
      | Some trc \<Rightarrow>
          if scale_factor st = 0 then (st, Some ZeroDivisionError)
          else
            (let vx = fst (to_frame st pos); vy = snd (to_frame st pos)
             in case scan_markers vx vy (current_frame st) (markers trc) (None, Fin 50) of
                  Inl e \<Rightarrow> (st, Some e)
                | Inr (best, best_d) \<Rightarrow>
                    if truthy best then
                      (case compute_kinematics (st\<lparr>selected_joint := best\<rparr>) of
                         (st1, Some e) \<Rightarrow> (st1, Some e)
                       | (st1, None) \<Rightarrow> set_frame env st1 (current_frame st1))
                    else (st, None)))"

section \<open>Calibration\<close>

text \<open>
  \<open>Sports2DApp._on_calibration_line\<close>.  \<open>p1\<close>, \<open>p2\<close> are the ends of the drawn line in display
  coordinates; \<open>answer\<close> is what the input dialog returns, the value and the flag \<open>ok\<close>.
\<close>

definition px_dist :: "app \<Rightarrow> int \<times> int \<Rightarrow> int \<times> int \<Rightarrow> real" where
  "px_dist st p1 p2 =
     (let v1 = to_frame st p1; v2 = to_frame st p2
      in sqrt ((fst v2 - fst v1) ^ 2 + (snd v2 - snd v1) ^ 2))"

definition on_calibration_line ::
  "frame_env \<Rightarrow> app \<Rightarrow> int \<times> int \<Rightarrow> int \<times> int \<Rightarrow> real \<times> bool \<Rightarrow> outcome"
where
  "on_calibration_line env st p1 p2 answer =
     (if scale_factor st = 0 then (st, Some ZeroDivisionError)
      else if px_dist st p1 p2 < 5 then (st\<lparr>status := Msg ''Line too short. Try again.''\<rparr>, None)
      else if snd answer \<and> fst answer > 0 then
        (let st1 = st\<lparr>px_per_unit := Some (px_dist st p1 p2 / fst answer),
                       unit_name := ''m'',
                       status := CalibratedMsg (px_dist st p1 p2 / fst answer)\<rparr>
         in if truthy (selected_joint st1) then
              (case compute_kinematics st1 of
                 (st2, Some e) \<Rightarrow> (st2, Some e)
               | (st2, None) \<Rightarrow> set_frame env st2 (current_frame st2))
            else (st1, None))
      else (st\<lparr>status := Msg ''Calibration cancelled.''\<rparr>, None))"


section \<open>Playback\<close>

text \<open>\<open>Sports2DApp._toggle_play\<close>: the timer is started with \<open>int(1000 / fps)\<close> milliseconds.\<close>

definition toggle_play :: "app \<Rightarrow> outcome" where
  "toggle_play st =
     (if timer_active st then (st\<lparr>timer_active := False\<rparr>, None)
      else if \<not> cap st then (st, None)
      else if fps st = 0 then (st, Some ZeroDivisionError)
      else (st\<lparr>timer_active := True, timer_interval := trunc (1000 / fps st)\<rparr>, None))"

text \<open>\<open>Sports2DApp._advance_frame\<close>, the slot of the timer.\<close>

definition advance_frame :: "frame_env \<Rightarrow> app \<Rightarrow> outcome" where
  "advance_frame env st =
     (if current_frame st < total_frames st - 1 then set_frame env st (current_frame st + 1)
      else (st\<lparr>timer_active := False\<rparr>, None))"

text \<open>\<open>Sports2DApp._seek\<close>, the slot of the slider.\<close>

definition seek :: "frame_env \<Rightarrow> app \<Rightarrow> int \<Rightarrow> outcome" where
  "seek env st val = set_frame env st val"

text \<open>The state that \<open>Sports2DApp.__init__\<close> sets up.\<close>

definition init_app :: app where
  "init_app =
     \<lparr>trc_data = None, mot_data = None, current_frame = 0, total_frames = 0, fps = 30,
      cap = False, timer_active = False, timer_interval = 0, selected_joint = None,
      px_per_unit = None, unit_name = ''px'', show_trajectory = False,
      show_relative_trajectory = False, cache_time = None, cache_vx = None, cache_vy = None,
      cache_vtotal = None, cache_ax = None, cache_ay = None, cache_atotal = None,
      cache_angle = None, cache_ang_vel = None, cache_ang_acc = None, cache_angle_name = None,
      scale_factor = 1, offset_x = 0, offset_y = 0, status = Msg ''Ready'', slider_value = 0,
      pixmap = None\<rparr>"

section \<open>Fields that the kinematics pass leaves alone\<close>

definition same_session :: "app \<Rightarrow> app \<Rightarrow> bool" where
  "same_session a b =
     (trc_data b = trc_data a \<and> px_per_unit b = px_per_unit a \<and> unit_name b = unit_name a \<and>
      selected_joint b = selected_joint a \<and> current_frame b = current_frame a \<and>
      total_frames b = total_frames a \<and> cap b = cap a \<and> timer_active b = timer_active a \<and>
      timer_interval b = timer_interval a \<and> fps b = fps a)"

text \<open>A label of 750 by 480 and a capture that decodes frames of 640 by 480.\<close>

definition env0 :: frame_env where
  "env0 = \<lparr>frame_read = (\<lambda>i. Some (640, 480)), label_w = 750, label_h = 480\<rparr>"

text \<open>A video of three frames on play, as \<open>_toggle_play\<close> leaves it at 30 frames a second.\<close>

definition playing3 :: app where
  "playing3 = init_app\<lparr>cap := True, total_frames := 3, timer_active := True, timer_interval := 33\<rparr>"

text \<open>
  A small trajectory file: two header lines, the line of rates and counts, the line of marker
  names, the line of coordinate labels and two data rows; and library parsers that read
  what occurs in it.
\<close>

definition NL :: char where
  "NL = CHR 0x0A"

definition sample_rows :: "string list" where
  "sample_rows =
     [''1'' @ [TAB] @ ''0'' @ [TAB] @ ''10'' @ [TAB] @ ''20'' @ [TAB] @ ''0'' @ [TAB] @
        ''30'' @ [TAB] @ ''40'' @ [TAB] @ ''0'' @ [NL],
      ''2'' @ [TAB] @ ''1'' @ [TAB] @ ''11'' @ [TAB] @ ''21'' @ [TAB] @ ''0'' @ [TAB] @
        ''31'' @ [TAB] @ ''41'' @ [TAB] @ ''0'' @ [NL]]"

definition sample_trc :: "string list" where
  "sample_trc =
     [''PathFileType 4 (X/Y/Z) demo.trc'' @ [NL],
      ''DataRate CameraRate NumFrames NumMarkers'' @ [NL],
      ''30 30 2 2'' @ [NL],
      ''Frame#'' @ [TAB] @ ''Time'' @ [TAB] @ ''Hip'' @ [TAB, TAB, TAB] @ ''RKnee'' @ [TAB, TAB, NL],
      [TAB, TAB] @ ''X1'' @ [TAB] @ ''Y1'' @ [TAB] @ ''Z1'' @ [TAB] @ ''X2'' @ [TAB] @ ''Y2'' @ [TAB] @ ''Z2'' @ [NL]]
     @ sample_rows"

definition sample_columns :: "pyfloat list list" where
  "sample_columns =
     [[Fin 1, Fin 2], [Fin 0, Fin 1], [Fin 10, Fin 11], [Fin 20, Fin 21], [Fin 0, Fin 0],
      [Fin 30, Fin 31], [Fin 40, Fin 41], [Fin 0, Fin 0]]"

definition sample_float :: "string \<Rightarrow> real option" where
  "sample_float s = (if s = ''30'' then Some 30 else None)"

definition sample_int :: "string \<Rightarrow> int option" where
  "sample_int s = (if s = ''2'' then Some 2 else None)"

definition sample_csv :: "string list \<Rightarrow> pyfloat list list option" where
  "sample_csv rows = (if rows = sample_rows then Some sample_columns else None)"

text \<open>Three frames of a moving marker and of a reference marker that stays where it is.\<close>

definition knee3 :: marker where
  "knee3 = \<lparr>mx = [Fin 10, Fin 12, Fin 15], my = [Fin 5, Fin 6, Fin 7]\<rparr>"


text \<open>A loaded trajectory with the single marker \<open>Hip\<close> and one frame, at the given position.\<close>

definition one_marker :: "pyfloat \<Rightarrow> pyfloat \<Rightarrow> app" where
  "one_marker x y =
     init_app\<lparr>trc_data := Some \<lparr>frame_count = 1, data_rate = 30,
                                 markers = [(''Hip'', \<lparr>mx = [x], my = [y]\<rparr>)],
                                 marker_list = [''Hip''], time = [Fin 0]\<rparr>\<rparr>"

text \<open>
  A marker that is not detected at its second frame, next to a marker that is; and a session
  on the three frames of a marker whose second sample is the missing value.
\<close>

definition gap_marker :: marker where
  "gap_marker = \<lparr>mx = [Fin 10, Fin (- 1), Fin 12], my = [Fin 5, Fin (- 1), Fin 6]\<rparr>"

definition gap_markers :: "(string \<times> marker) list" where
  "gap_markers = [(''Hip'', gap_marker), (''Neck'', knee3)]"

definition gap_session :: app where
  "gap_session =
     init_app\<lparr>trc_data := Some \<lparr>frame_count = 3, data_rate = 1, markers = gap_markers,
                                 marker_list = [''Hip'', ''Neck''], time = [Fin 0, Fin 1, Fin 2]\<rparr>,
               selected_joint := Some ''Hip''\<rparr>"




section \<open>What the click scan compares\<close>

text \<open>
  The distance that the scan of \<open>_on_video_click\<close> compares for a marker at the current frame
  \<open>cf\<close>: the marker has a sample there, its \<open>x\<close> passes the test, and \<open>np.hypot\<close> gives a
  number.  \<open>None\<close> for a marker the scan passes over.
\<close>

definition cand_dist :: "real \<Rightarrow> real \<Rightarrow> int \<Rightarrow> marker \<Rightarrow> real option" where
  "cand_dist vx vy cf c =
     (if 0 \<le> cf \<and> cf < int (length (mx c)) \<and> \<not> x_absent (mx c ! nat cf)
      then (case fl_hypot (fl_sub (mx c ! nat cf) (Fin vx)) (fl_sub (my c ! nat cf) (Fin vy)) of
              NaN \<Rightarrow> None
            | Fin q \<Rightarrow> Some q)
      else None)"

text \<open>
  Following the spec: a marker is detected at a frame when both coordinates are there,
  positive and numbers.
\<close>

definition spec_detected :: "marker \<Rightarrow> nat \<Rightarrow> bool" where
  "spec_detected c k =
     (k < length (mx c) \<and> k < length (my c) \<and>
      fl_lt (Fin 0) (mx c ! k) \<and> fl_lt (Fin 0) (my c ! k))"

text \<open>
  Two frames of two markers: \<open>Hip\<close> at \<open>(10, -1)\<close>, its \<open>y\<close> missing, and \<open>Neck\<close> at
  \<open>(10, 30)\<close>.
\<close>

definition click_markers :: "(string \<times> marker) list" where
  "click_markers =
     [(''Hip'', \<lparr>mx = [Fin 10, Fin 10], my = [Fin (- 1), Fin (- 1)]\<rparr>),
      (''Neck'', \<lparr>mx = [Fin 10, Fin 10], my = [Fin 30, Fin 30]\<rparr>)]"

definition click_session :: app where
  "click_session =
     init_app\<lparr>trc_data := Some \<lparr>frame_count = 2, data_rate = 30, markers = click_markers,
                                 marker_list = [''Hip'', ''Neck''], time = [Fin 0, Fin 1]\<rparr>\<rparr>"

section \<open>Properties\<close>

subsection \<open>Calibration\<close>

lemma same_session_refl: "same_session a a"
  by (simp add: same_session_def)

lemma same_session_trans: "same_session a b \<Longrightarrow> same_session b c \<Longrightarrow> same_session a c"
  by (simp add: same_session_def)

lemma angle_kinematics_same: "same_session st (fst (angle_kinematics st j t dt))"
  by (simp add: angle_kinematics_def clear_angles_def same_session_def Let_def
           split: option.splits sum.splits)

lemma linear_kinematics_same: "same_session st (fst (linear_kinematics st vx vy dt))"
  by (simp add: linear_kinematics_def same_session_def Let_def split: option.splits sum.splits)

lemma compute_kinematics_same: "same_session st (fst (compute_kinematics st))"
proof -
  have step: "same_session s1 (fst (case linear_kinematics s1 vx vy dt of
                         (st2, Some e) \<Rightarrow> (st2, Some e)
                       | (st2, None) \<Rightarrow> angle_kinematics st2 j t dt))" for s1 vx vy dt j t
  proof (cases "linear_kinematics s1 vx vy dt")
    case (Pair st2 r)
    with linear_kinematics_same [of s1 vx vy dt] have k: "same_session s1 st2" by simp
    show ?thesis
    proof (cases r)
      case None
      with Pair k angle_kinematics_same [of st2 j t dt] show ?thesis
        by (auto intro: same_session_trans)
    next
      case (Some e)
      with Pair k show ?thesis by simp
    qed
  qed
  have upd: "same_session st (st\<lparr>cache_time := v\<rparr>)" for v
    by (simp add: same_session_def)
  show ?thesis
    unfolding compute_kinematics_def Let_def
    by (auto split: option.splits sum.splits
             intro: same_session_refl upd same_session_trans [OF upd step])
qed

lemma set_frame_total_frames: "total_frames (fst (set_frame env st idx)) = total_frames st"
  by (simp add: set_frame_def Let_def split: option.splits sum.splits prod.splits)

lemma set_frame_current_frame:
  "current_frame (fst (set_frame env st idx)) =
     (if \<not> cap st \<or> idx < 0 \<or> idx \<ge> total_frames st then current_frame st else idx)"
  by (simp add: set_frame_def Let_def split: option.splits sum.splits prod.splits)

lemma set_frame_timer_active: "timer_active (fst (set_frame env st idx)) = timer_active st"
  by (simp add: set_frame_def Let_def split: option.splits sum.splits prod.splits)


lemma set_frame_selected_joint: "selected_joint (fst (set_frame env st idx)) = selected_joint st"
  by (simp add: set_frame_def Let_def split: option.splits sum.splits prod.splits)





text \<open>
  C4.  A calibration line whose ends, converted to frame pixels by
  \<open>(display - offset) / scale_factor\<close>, are less than 5 pixels apart is rejected: only the
  status text changes, \<open>px_per_unit\<close> and \<open>unit_name\<close> stay as they were.
\<close>

theorem short_line_rejected:
  assumes "scale_factor st \<noteq> 0"
    and "sqrt ((fst (to_frame st p2) - fst (to_frame st p1)) ^ 2 +
               (snd (to_frame st p2) - snd (to_frame st p1)) ^ 2) < 5"
  shows "on_calibration_line env st p1 p2 answer =
           (st\<lparr>status := Msg ''Line too short. Try again.''\<rparr>, None) \<and>
         px_per_unit (fst (on_calibration_line env st p1 p2 answer)) = px_per_unit st \<and>
         unit_name (fst (on_calibration_line env st p1 p2 answer)) = unit_name st"
  using assms by (simp add: on_calibration_line_def px_dist_def Let_def)

theorem short_line_rejected_witness:
  "scale_factor (init_app\<lparr>px_per_unit := Some 50, unit_name := ''m''\<rparr>) \<noteq> 0 \<and>
   on_calibration_line env0 (init_app\<lparr>px_per_unit := Some 50, unit_name := ''m''\<rparr>) (10, 10) (13, 10) (2, True) =
     (init_app\<lparr>px_per_unit := Some 50, unit_name := ''m'', status := Msg ''Line too short. Try again.''\<rparr>, None)"
proof -
  have s: "sqrt ((3::real) ^ 2) = 3" by simp
  have h1: "scale_factor (init_app\<lparr>px_per_unit := Some 50, unit_name := ''m''\<rparr>) \<noteq> 0"
    by (simp add: init_app_def)
  have h2: "sqrt ((fst (to_frame (init_app\<lparr>px_per_unit := Some 50, unit_name := ''m''\<rparr>) (13, 10)) -
                   fst (to_frame (init_app\<lparr>px_per_unit := Some 50, unit_name := ''m''\<rparr>) (10, 10))) ^ 2 +
                  (snd (to_frame (init_app\<lparr>px_per_unit := Some 50, unit_name := ''m''\<rparr>) (13, 10)) -
                   snd (to_frame (init_app\<lparr>px_per_unit := Some 50, unit_name := ''m''\<rparr>) (10, 10))) ^ 2) < 5"
    using s by (simp add: to_frame_def init_app_def)
  from short_line_rejected [OF h1 h2, of env0 "(2, True)"] h1 show ?thesis by simp
qed

subsection \<open>Smoothing\<close>






subsection \<open>Playback\<close>

text \<open>
  C9 as the code has it.  Starting playback arms the timer with \<open>int(1000 / fps)\<close> whole
  milliseconds.  A tick before the last frame moves \<open>current_frame\<close> forward by exactly one and
  leaves the timer running; a tick at the last frame (or beyond) only stops the timer; so a
  tick never takes \<open>current_frame\<close> past \<open>total_frames - 1\<close>.
\<close>

theorem playback_tick:
  "(\<not> timer_active st0 \<and> cap st0 \<and> fps st0 \<noteq> 0 \<longrightarrow>
      toggle_play st0 =
        (st0\<lparr>timer_active := True, timer_interval := trunc (1000 / fps st0)\<rparr>, None)) \<and>
   (timer_active st \<and> cap st \<and> 0 \<le> current_frame st \<and> current_frame st < total_frames st - 1 \<longrightarrow>
      current_frame (fst (advance_frame env st)) = current_frame st + 1 \<and>
      timer_active (fst (advance_frame env st))) \<and>
   (total_frames sl - 1 \<le> current_frame sl \<longrightarrow>
      advance_frame env sl = (sl\<lparr>timer_active := False\<rparr>, None)) \<and>
   (current_frame st \<le> total_frames st - 1 \<longrightarrow>
      current_frame (fst (advance_frame env st)) \<le> total_frames st - 1)"
  by (simp add: advance_frame_def toggle_play_def set_frame_current_frame set_frame_timer_active)

theorem playback_tick_witness:
  "toggle_play (init_app\<lparr>cap := True, total_frames := 3\<rparr>) = (playing3, None) \<and>
   current_frame (fst (advance_frame env0 playing3)) = 1 \<and>
   timer_active (fst (advance_frame env0 playing3)) \<and>
   advance_frame env0 (playing3\<lparr>current_frame := 2\<rparr>) =
     (playing3\<lparr>current_frame := 2, timer_active := False\<rparr>, None)"
  using playback_tick [of "init_app\<lparr>cap := True, total_frames := 3\<rparr>" playing3 env0
                          "playing3\<lparr>current_frame := 2\<rparr>"]
  by (simp add: playing3_def init_app_def trunc_def)

text \<open>
  C9 as stated fails on the interval: at 30 frames a second the timer is started with 33
  milliseconds, which is not \<open>1000 / 30\<close>.
\<close>

theorem tick_interval_counterexample:
  "real_of_int (timer_interval (fst (toggle_play (init_app\<lparr>cap := True\<rparr>)))) \<noteq>
     1000 / fps (init_app\<lparr>cap := True\<rparr>)"
  by (simp add: toggle_play_def init_app_def trunc_def)

subsection \<open>Frame guard\<close>

text \<open>
  C10.  With no video, or a frame number below 0 or not below \<open>total_frames\<close>, \<open>_set_frame\<close> and
  \<open>_seek\<close> return the state untouched; and whatever the frame number asked for, they and
  the timer's \<open>_advance_frame\<close> keep \<open>0 \<le> current_frame < total_frames\<close>.
\<close>

theorem set_frame_guard:
  "(\<not> cap st \<or> idx < 0 \<or> total_frames st \<le> idx \<longrightarrow>
      set_frame env st idx = (st, None) \<and> seek env st idx = (st, None)) \<and>
   (0 \<le> current_frame st \<and> current_frame st < total_frames st \<longrightarrow>
      0 \<le> current_frame (fst (set_frame env st j)) \<and>
      current_frame (fst (set_frame env st j)) < total_frames (fst (set_frame env st j)) \<and>
      0 \<le> current_frame (fst (seek env st j)) \<and>
      current_frame (fst (seek env st j)) < total_frames (fst (seek env st j)) \<and>
      0 \<le> current_frame (fst (advance_frame env st)) \<and>
      current_frame (fst (advance_frame env st)) < total_frames (fst (advance_frame env st)))"
  by (simp add: seek_def advance_frame_def set_frame_total_frames set_frame_current_frame)
     (simp add: set_frame_def)

theorem set_frame_guard_witness:
  "set_frame env0 playing3 3 = (playing3, None) \<and> seek env0 playing3 (- 1) = (playing3, None) \<and>
   current_frame (fst (seek env0 playing3 2)) = 2 \<and>
   current_frame (fst (seek env0 playing3 7)) = 0"
  using set_frame_guard [of playing3 3 env0 2] set_frame_guard [of playing3 "- 1" env0 7]
  by (simp add: playing3_def init_app_def set_frame_current_frame seek_def)

subsection \<open>Trajectory loader\<close>

lemma load_markers_spec:
  assumes "\<forall>k<length names. (i + k) * 3 + 3 < length data"
    and "distinct names" and "set names \<inter> fst ` set acc = {}"
  shows "\<exists>res. load_markers data names i acc = Some res \<and>
           map fst res = map fst acc @ names \<and>
           (\<forall>k<length names. map_of res (names ! k) =
                Some \<lparr>mx = data ! ((i + k) * 3 + 2), my = data ! ((i + k) * 3 + 3)\<rparr>) \<and>
           (\<forall>x. x \<notin> set names \<longrightarrow> map_of res x = map_of acc x)"
  using assms
proof (induction names arbitrary: i acc)
  case Nil
  then show ?case by simp
next
  case (Cons name rest)
  let ?m = "\<lparr>mx = data ! (i * 3 + 2), my = data ! (i * 3 + 3)\<rparr>"
  let ?acc = "AList.update name ?m acc"
  from Cons.prems(1) have here: "i * 3 + 3 < length data" by force
  from Cons.prems(1) have later: "\<forall>k<length rest. (Suc i + k) * 3 + 3 < length data" by force
  from Cons.prems(2) have d: "distinct rest" "name \<notin> set rest" by simp_all
  from Cons.prems(3) have fresh: "name \<notin> fst ` set acc" by auto
  have keys: "map fst ?acc = map fst acc @ [name]"
    using fresh by (simp add: update_keys)
  have disj: "set rest \<inter> fst ` set ?acc = {}"
    using Cons.prems(3) d by (auto simp: dom_update)
  from Cons.IH [OF later d(1) disj]
  obtain res where res: "load_markers data rest (Suc i) ?acc = Some res"
    and order: "map fst res = map fst ?acc @ rest"
    and vals: "\<forall>k<length rest. map_of res (rest ! k) =
                Some \<lparr>mx = data ! ((Suc i + k) * 3 + 2), my = data ! ((Suc i + k) * 3 + 3)\<rparr>"
    and others: "\<forall>x. x \<notin> set rest \<longrightarrow> map_of res x = map_of ?acc x"
    by blast
  have run: "load_markers data (name # rest) i acc = Some res"
    using here res by (simp add: Let_def)
  have first: "map_of res name = Some ?m"
    using others d(2) by (simp add: update_conv')
  have all: "map_of res ((name # rest) ! k) =
                Some \<lparr>mx = data ! ((i + k) * 3 + 2), my = data ! ((i + k) * 3 + 3)\<rparr>"
    if "k < length (name # rest)" for k
  proof (cases k)
    case 0
    with first show ?thesis by simp
  next
    case (Suc k')
    with that vals show ?thesis by simp
  qed
  have rest_same: "\<forall>x. x \<notin> set (name # rest) \<longrightarrow> map_of res x = map_of acc x"
    using others by (simp add: update_conv')
  from run order keys all rest_same show ?case by simp
qed

lemma marker_names_of_alt:
  "marker_names_of line =
     filter (\<lambda>n. n \<noteq> [] \<and> n \<noteq> ''Frame#'' \<and> n \<noteq> ''Time'') (map strip (split_on TAB line))"
  by (simp add: marker_names_of_def filter_map comp_def)

text \<open>
  C7.  A well-formed file has its third and fourth line, at least three tokens on the third
  with token 0 a float and token 2 an integer, distinct marker names, and a data table (read
  after the first five lines) with a time column and three columns for every marker.  For
  such a file the loader returns a result with that rate and frame count, the marker names of
  the tab-split fourth line without blank entries, \<open>Frame#\<close> and \<open>Time\<close>, in order, the \<open>x\<close>
  and \<open>y\<close> series of the marker at position \<open>i\<close> from columns \<open>2 + 3 i\<close> and \<open>2 + 3 i + 1\<close>, and
  the time series from column 1.
\<close>

theorem load_trc_wellformed:
  assumes "4 \<le> length lines"
    and "3 \<le> length (split_ws (lines ! 2))"
    and "to_float (split_ws (lines ! 2) ! 0) = Some rate"
    and "to_int (split_ws (lines ! 2) ! 2) = Some n"
    and "names = filter (\<lambda>n. n \<noteq> [] \<and> n \<noteq> ''Frame#'' \<and> n \<noteq> ''Time'')
                        (map strip (split_on TAB (lines ! 3)))"
    and "distinct names"
    and "read_csv (drop 5 lines) = Some data"
    and "2 \<le> length data"
    and "\<forall>i<length names. 2 + 3 * i + 1 < length data"
  shows "\<exists>r. load_trc to_float to_int read_csv lines = Some r \<and>
           data_rate r = rate \<and> frame_count r = n \<and>
           marker_list r = names \<and> map fst (markers r) = names \<and>
           (\<forall>i<length names. map_of (markers r) (names ! i) =
                Some \<lparr>mx = data ! (2 + 3 * i), my = data ! (2 + 3 * i + 1)\<rparr>) \<and>
           time r = data ! 1"
proof -
  have nm: "marker_names_of (lines ! 3) = names"
    using assms(5) by (simp add: marker_names_of_alt)
  have e: "(0 + k) * 3 + 2 = 2 + 3 * k" "(0 + k) * 3 + 3 = 2 + 3 * k + 1" for k :: nat
    by simp_all
  have cols: "\<forall>k<length names. (0 + k) * 3 + 3 < length data"
    using assms(9) unfolding e .
  from load_markers_spec [OF cols assms(6), of "[]"]
  obtain res where res: "load_markers data names 0 [] = Some res"
    and order: "map fst res = names"
    and vals: "\<forall>k<length names. map_of res (names ! k) =
                Some \<lparr>mx = data ! ((0 + k) * 3 + 2), my = data ! ((0 + k) * 3 + 3)\<rparr>"
    by auto
  have run: "load_trc to_float to_int read_csv lines =
          Some \<lparr>frame_count = n, data_rate = rate, markers = res, marker_list = names,
                time = data ! 1\<rparr>"
    using assms(1-4,7,8) res by (auto simp add: load_trc_def Let_def nm)
  have vals': "\<forall>i<length names. map_of res (names ! i) =
                Some \<lparr>mx = data ! (2 + 3 * i), my = data ! (2 + 3 * i + 1)\<rparr>"
    using vals unfolding e .
  from run order vals' show ?thesis by simp
qed


theorem load_trc_wellformed_witness:
  "\<exists>r. load_trc sample_float sample_int sample_csv sample_trc = Some r \<and>
       data_rate r = 30 \<and> frame_count r = 2 \<and>
       marker_list r = [''Hip'', ''RKnee''] \<and> map fst (markers r) = [''Hip'', ''RKnee''] \<and>
       map_of (markers r) ''Hip'' = Some \<lparr>mx = [Fin 10, Fin 11], my = [Fin 20, Fin 21]\<rparr> \<and>
       map_of (markers r) ''RKnee'' = Some \<lparr>mx = [Fin 30, Fin 31], my = [Fin 40, Fin 41]\<rparr> \<and>
       time r = [Fin 0, Fin 1]"
proof -
  have toks: "split_ws (sample_trc ! 2) = [''30'', ''30'', ''2'', ''2'']"
    by (simp add: sample_trc_def split_ws_def is_space_def NL_def TAB_def)
  have names: "[''Hip'', ''RKnee''] =
      filter (\<lambda>n. n \<noteq> [] \<and> n \<noteq> ''Frame#'' \<and> n \<noteq> ''Time'')
             (map strip (split_on TAB (sample_trc ! 3)))"
    by (simp add: sample_trc_def strip_def is_space_def NL_def TAB_def)
  have h1: "4 \<le> length sample_trc"
    by (simp add: sample_trc_def)
  have h2: "3 \<le> length (split_ws (sample_trc ! 2))"
    by (simp add: toks)
  have h3: "sample_float (split_ws (sample_trc ! 2) ! 0) = Some 30"
    by (simp add: toks sample_float_def)
  have h4: "sample_int (split_ws (sample_trc ! 2) ! 2) = Some 2"
    by (simp add: toks sample_int_def)
  have h6: "distinct [''Hip'', ''RKnee'']"
    by simp
  have h7: "sample_csv (drop 5 sample_trc) = Some sample_columns"
    by (simp add: sample_trc_def sample_csv_def)
  have h8: "2 \<le> length sample_columns"
    by (simp add: sample_columns_def)
  have h9: "\<forall>i<length [''Hip'', ''RKnee'']. 2 + 3 * i + 1 < length sample_columns"
    by (simp add: sample_columns_def)
  note inst = load_trc_wellformed [where lines = sample_trc and to_float = sample_float
        and to_int = sample_int and read_csv = sample_csv and data = sample_columns
        and names = "[''Hip'', ''RKnee'']" and rate = 30 and n = 2,
        OF h1 h2 h3 h4 names h6 h7 h8 h9]
  then obtain r where r: "load_trc sample_float sample_int sample_csv sample_trc = Some r \<and>
           data_rate r = 30 \<and> frame_count r = 2 \<and>
           marker_list r = [''Hip'', ''RKnee''] \<and> map fst (markers r) = [''Hip'', ''RKnee''] \<and>
           (\<forall>i<length [''Hip'', ''RKnee'']. map_of (markers r) ([''Hip'', ''RKnee''] ! i) =
                Some \<lparr>mx = sample_columns ! (2 + 3 * i), my = sample_columns ! (2 + 3 * i + 1)\<rparr>) \<and>
           time r = sample_columns ! 1" ..
  then have v: "i < length [''Hip'', ''RKnee''] \<Longrightarrow> map_of (markers r) ([''Hip'', ''RKnee''] ! i) =
                Some \<lparr>mx = sample_columns ! (2 + 3 * i), my = sample_columns ! (2 + 3 * i + 1)\<rparr>" for i
    by simp
  have v0: "map_of (markers r) ''Hip'' = Some \<lparr>mx = [Fin 10, Fin 11], my = [Fin 20, Fin 21]\<rparr>"
    using v [of 0] by (simp add: sample_columns_def)
  have v1: "map_of (markers r) ''RKnee'' = Some \<lparr>mx = [Fin 30, Fin 31], my = [Fin 40, Fin 41]\<rparr>"
    using v [of 1] by (simp add: sample_columns_def)
  have "load_trc sample_float sample_int sample_csv sample_trc = Some r \<and>
       data_rate r = 30 \<and> frame_count r = 2 \<and>
       marker_list r = [''Hip'', ''RKnee''] \<and> map fst (markers r) = [''Hip'', ''RKnee''] \<and>
       map_of (markers r) ''Hip'' = Some \<lparr>mx = [Fin 10, Fin 11], my = [Fin 20, Fin 21]\<rparr> \<and>
       map_of (markers r) ''RKnee'' = Some \<lparr>mx = [Fin 30, Fin 31], my = [Fin 40, Fin 41]\<rparr> \<and>
       time r = [Fin 0, Fin 1]"
    using r v0 v1 by (simp add: sample_columns_def)
  then show ?thesis ..
qed

subsection \<open>Reference-relative trail\<close>

lemma arr_get_in_range: "i < length xs \<Longrightarrow> arr_get xs i = Inr (xs ! i)"
  by (simp add: arr_get_def py_get_def)

lemma ebind_Inr: "ebind (Inr a) f = f a"
  by (simp add: ebind_def)

lemma ebind_Inl: "ebind (Inl e) f = Inl e"
  by (simp add: ebind_def)









subsection \<open>Missing samples\<close>

lemma x_absent_iff: "x_absent x \<longleftrightarrow> \<not> (fl_lt (Fin 0) x \<and> \<not> isnan x)"
  by (cases x) (auto simp: x_absent_def)

lemma bones_one_marker: "for_each (bone [(''Hip'', m)] 0) SKELETON_CONNECTIONS = Inr []"
  by (simp add: SKELETON_CONNECTIONS_def bone_def ebind_def)

lemma trunc_minus_one: "trunc (- 1) = - 1"
  using ceiling_of_int [of "- 1"] by (simp add: trunc_def)

lemma gradient3:
  "gradient [a, b, c] dt =
     Inr [fl_div (fl_sub b a) dt, fl_div (fl_sub c a) (2 * dt), fl_div (fl_sub c b) dt]"
  by (simp add: gradient_def Let_def upt_rec [of 0] upt_rec [of "Suc 0"] upt_rec [of "Suc (Suc 0)"])

lemma gap_session_vx:
  "cache_vx (fst (compute_kinematics gap_session)) = Some [Fin (- 11), Fin 1, Fin 13]"
  by (simp add: compute_kinematics_def gap_session_def gap_markers_def gap_marker_def init_app_def
      unit_scale_def gradient3 linear_kinematics_def smooth_def win_def Let_def magnitude_def
      angle_kinematics_def MARKER_TO_ANGLE_def clear_angles_def)

lemma one_marker_overlays:
  "draw_overlays (one_marker (Fin 10) (Fin (- 1))) 0 = Inr [Circle (10, - 1) 4 CLR_DOT] \<and>
   draw_overlays (one_marker (Fin 10) NaN) 0 = Inl ValueError"
  by (simp add: draw_overlays_def one_marker_def init_app_def trails_def bones_one_marker
        dot_def arr_get_def py_get_def pixel_def trunc_minus_one ebind_def Let_def)
     (simp add: trunc_def)

text \<open>
  C2 as stated fails.  A marker at \<open>(10, -1)\<close>, whose \<open>y\<close> is missing, still gets its dot; a
  marker at \<open>(10, NaN)\<close> makes the renderer raise; and the velocity at frame 0 of a series
  whose sample at frame 1 is the missing value \<open>-1\<close> is computed from that sample
  (\<open>(-1 - 10) / 1 = -11\<close>).
\<close>

theorem missing_sample_counterexample:
  "draw_overlays (one_marker (Fin 10) (Fin (- 1))) 0 = Inr [Circle (10, - 1) 4 CLR_DOT] \<and>
   draw_overlays (one_marker (Fin 10) NaN) 0 = Inl ValueError \<and>
   mx gap_marker ! 1 = Fin (- 1) \<and>
   cache_vx (fst (compute_kinematics gap_session)) = Some [Fin (- 11), Fin 1, Fin 13]"
  by (simp add: one_marker_overlays gap_session_vx) (simp add: gap_marker_def)

text \<open>
  C2 as the code has it.  The renderer tests the \<open>x\<close> coordinate only.  When a marker's \<open>x\<close> at
  frame \<open>k\<close> is not positive or not a number, every bone that has the marker at an end, the
  marker's dot, and the two segments of its absolute trail that touch frame \<open>k\<close> return
  normally with nothing drawn.
\<close>

theorem missing_x_excluded:
  assumes "\<forall>m \<in> snd ` set ms. length (my m) = length (mx m)"
    and "map_of ms name = Some c"
    and "k < length (mx c)"
    and "x_absent (mx c ! k)"
  shows "bone ms k (name, other) = Inr [] \<and> bone ms k (other, name) = Inr [] \<and>
         dot sel angle k (name, c) = Inr [] \<and>
         abs_trail_seg c idx k = Inr [] \<and> abs_trail_seg c idx (k - 1) = Inr []"
proof -
  have wf: "length (my m) = length (mx m)" if "map_of ms n = Some m" for n m
    using assms(1) map_of_SomeD [OF that] by force
  have lc: "length (my c) = length (mx c)" using wf assms(2) .
  have gx: "arr_get (mx c) k = Inr (mx c ! k)" "arr_get (my c) k = Inr (my c ! k)"
    using assms(3) lc by (simp_all add: arr_get_in_range)
  have no: "\<not> (fl_lt (Fin 0) (mx c ! k) \<and> \<not> isnan (mx c ! k))"
    using assms(4) by (simp add: x_absent_iff)
  have b1: "bone ms k (name, other) = Inr []"
  proof (cases "map_of ms other")
    case None
    then show ?thesis by (simp add: bone_def assms(2))
  next
    case (Some m2)
    show ?thesis
    proof (cases "k < length (mx m2)")
      case True
      then have "arr_get (mx m2) k = Inr (mx m2 ! k)" "arr_get (my m2) k = Inr (my m2 ! k)"
        using wf [OF Some] by (simp_all add: arr_get_in_range)
      with no show ?thesis
        by (auto simp add: bone_def assms(2) Some gx ebind_Inr)
    next
      case False
      then show ?thesis by (simp add: bone_def assms(2) Some)
    qed
  qed
  have b2: "bone ms k (other, name) = Inr []"
  proof (cases "map_of ms other")
    case None
    then show ?thesis by (simp add: bone_def assms(2))
  next
    case (Some m2)
    show ?thesis
    proof (cases "k < length (mx m2)")
      case True
      then have "arr_get (mx m2) k = Inr (mx m2 ! k)" "arr_get (my m2) k = Inr (my m2 ! k)"
        using wf [OF Some] by (simp_all add: arr_get_in_range)
      with no show ?thesis
        by (auto simp add: bone_def assms(2) Some gx ebind_Inr)
    next
      case False
      then show ?thesis by (simp add: bone_def assms(2) Some)
    qed
  qed
  have d: "dot sel angle k (name, c) = Inr []"
    using assms(3,4) by (simp add: dot_def Let_def gx ebind_Inr x_absent_def)
  have t1: "abs_trail_seg c idx k = Inr []"
  proof (cases "k + 1 < length (mx c)")
    case True
    then have "arr_get (mx c) (Suc k) = Inr (mx c ! Suc k)" "arr_get (my c) (Suc k) = Inr (my c ! Suc k)"
      using lc by (simp_all add: arr_get_in_range)
    with no True show ?thesis
      by (auto simp add: abs_trail_seg_def Let_def gx ebind_Inr)
  next
    case False
    then show ?thesis by (simp add: abs_trail_seg_def)
  qed
  have t2: "abs_trail_seg c idx (k - 1) = Inr []"
  proof (cases k)
    case 0
    with t1 show ?thesis by simp
  next
    case (Suc j)
    then have "j < length (mx c)" using assms(3) by simp
    then have "arr_get (mx c) j = Inr (mx c ! j)" "arr_get (my c) j = Inr (my c ! j)"
      using lc by (simp_all add: arr_get_in_range)
    with no Suc assms(3) gx show ?thesis
      by (auto simp add: abs_trail_seg_def Let_def ebind_Inr)
  qed
  from b1 b2 d t1 t2 show ?thesis by simp
qed


theorem missing_x_excluded_witness:
  "map_of gap_markers ''Hip'' = Some gap_marker \<and> x_absent (mx gap_marker ! 1) \<and>
   bone gap_markers 1 (''Hip'', ''Neck'') = Inr [] \<and> bone gap_markers 1 (''Neck'', ''Hip'') = Inr [] \<and>
   dot (Some ''Hip'') None 1 (''Hip'', gap_marker) = Inr [] \<and>
   abs_trail_seg gap_marker 2 1 = Inr [] \<and> abs_trail_seg gap_marker 2 0 = Inr []"
proof -
  have h1: "\<forall>m \<in> snd ` set gap_markers. length (my m) = length (mx m)"
    by (simp add: gap_markers_def gap_marker_def knee3_def)
  have h2: "map_of gap_markers ''Hip'' = Some gap_marker"
    by (simp add: gap_markers_def)
  have h3: "1 < length (mx gap_marker)"
    by (simp add: gap_marker_def)
  have h4: "x_absent (mx gap_marker ! 1)"
    by (simp add: gap_marker_def x_absent_def)
  from missing_x_excluded [OF h1 h2 h3 h4, of "''Neck''" "Some ''Hip''" None 2] h2 h4
  show ?thesis by simp
qed

subsection \<open>Total velocity and acceleration\<close>
























subsection \<open>Nearest marker\<close>

lemma py_get_in_range: "0 \<le> i \<Longrightarrow> i < int (length xs) \<Longrightarrow> py_get xs i = Inr (xs ! nat i)"
  by (simp add: py_get_def)

lemma scan_step:
  assumes "length (my c) = length (mx c)" and "0 \<le> cf"
  shows "scan_markers vx vy cf ((n, c) # rest) (b, Fin r) =
           scan_markers vx vy cf rest
             (case cand_dist vx vy cf c of
                None \<Rightarrow> (b, Fin r)
              | Some q \<Rightarrow> if q < r then (Some n, Fin q) else (b, Fin r))"
proof (cases "cf < int (length (mx c))")
  case False
  then show ?thesis by (simp add: cand_dist_def)
next
  case True
  then have g: "py_get (mx c) cf = Inr (mx c ! nat cf)" "py_get (my c) cf = Inr (my c ! nat cf)"
    using assms by (simp_all add: py_get_in_range)
  show ?thesis
  proof (cases "x_absent (mx c ! nat cf)")
    case True
    with \<open>cf < int (length (mx c))\<close> show ?thesis
      by (simp add: g ebind_Inr cand_dist_def x_absent_def)
  next
    case False
    then have nx: "\<not> (fl_le (mx c ! nat cf) (Fin 0) \<or> isnan (mx c ! nat cf))"
      by (simp add: x_absent_def)
    show ?thesis
    proof (cases "fl_hypot (fl_sub (mx c ! nat cf) (Fin vx)) (fl_sub (my c ! nat cf) (Fin vy))")
      case NaN
      with False nx \<open>cf < int (length (mx c))\<close> assms(2) show ?thesis
        by (simp add: g ebind_Inr cand_dist_def Let_def)
    next
      case (Fin q)
      with False nx \<open>cf < int (length (mx c))\<close> assms(2) show ?thesis
        by (simp add: g ebind_Inr cand_dist_def Let_def)
    qed
  qed
qed

lemma scan_spec:
  assumes "\<forall>m \<in> set ms. length (my (snd m)) = length (mx (snd m))" and "0 \<le> cf"
  shows "\<exists>b' r'. scan_markers vx vy cf ms (b, Fin r) = Inr (b', Fin r') \<and>
           ((b' = b \<and> r' = r \<and>
             (\<forall>k<length ms. \<forall>q. cand_dist vx vy cf (snd (ms ! k)) = Some q \<longrightarrow> r \<le> q)) \<or>
            (\<exists>k<length ms. b' = Some (fst (ms ! k)) \<and>
               cand_dist vx vy cf (snd (ms ! k)) = Some r' \<and> r' < r \<and>
               (\<forall>j<length ms. \<forall>q. cand_dist vx vy cf (snd (ms ! j)) = Some q \<longrightarrow> r' \<le> q) \<and>
               (\<forall>j<k. cand_dist vx vy cf (snd (ms ! j)) \<noteq> Some r')))"
  using assms(1)
proof (induction ms arbitrary: b r)
  case Nil
  then show ?case by simp
next
  case (Cons m rest)
  obtain n c where m: "m = (n, c)" by (cases m)
  from Cons.prems m have len: "length (my c) = length (mx c)" by simp
  from Cons.prems have wf: "\<forall>m \<in> set rest. length (my (snd m)) = length (mx (snd m))" by simp
  let ?D = "\<lambda>x. cand_dist vx vy cf (snd x)"
  note step = scan_step [OF len assms(2), of vx vy n rest b r]
  show ?case
  proof (cases "\<exists>q. cand_dist vx vy cf c = Some q \<and> q < r")
    case True
    then obtain q where q: "cand_dist vx vy cf c = Some q" "q < r" by blast
    from Cons.IH [OF wf, of "Some n" q]
    obtain b' r' where run: "scan_markers vx vy cf rest (Some n, Fin q) = Inr (b', Fin r')"
      and alt: "(b' = Some n \<and> r' = q \<and> (\<forall>k<length rest. \<forall>p. ?D (rest ! k) = Some p \<longrightarrow> q \<le> p)) \<or>
            (\<exists>k<length rest. b' = Some (fst (rest ! k)) \<and> ?D (rest ! k) = Some r' \<and> r' < q \<and>
               (\<forall>j<length rest. \<forall>p. ?D (rest ! j) = Some p \<longrightarrow> r' \<le> p) \<and>
               (\<forall>j<k. ?D (rest ! j) \<noteq> Some r'))"
      by blast
    have res: "scan_markers vx vy cf (m # rest) (b, Fin r) = Inr (b', Fin r')"
      using step q run by (simp add: m)
    from alt have "\<exists>k<length (m # rest). b' = Some (fst ((m # rest) ! k)) \<and>
               ?D ((m # rest) ! k) = Some r' \<and> r' < r \<and>
               (\<forall>j<length (m # rest). \<forall>p. ?D ((m # rest) ! j) = Some p \<longrightarrow> r' \<le> p) \<and>
               (\<forall>j<k. ?D ((m # rest) ! j) \<noteq> Some r')"
    proof
      assume a: "b' = Some n \<and> r' = q \<and> (\<forall>k<length rest. \<forall>p. ?D (rest ! k) = Some p \<longrightarrow> q \<le> p)"
      have "\<forall>j<length (m # rest). \<forall>p. ?D ((m # rest) ! j) = Some p \<longrightarrow> r' \<le> p"
      proof (intro allI impI)
        fix j p assume "j < length (m # rest)" "?D ((m # rest) ! j) = Some p"
        then show "r' \<le> p" using a q m by (cases j) auto
      qed
      with a q m show ?thesis by (intro exI [of _ 0]) simp
    next
      assume "\<exists>k<length rest. b' = Some (fst (rest ! k)) \<and> ?D (rest ! k) = Some r' \<and> r' < q \<and>
               (\<forall>j<length rest. \<forall>p. ?D (rest ! j) = Some p \<longrightarrow> r' \<le> p) \<and>
               (\<forall>j<k. ?D (rest ! j) \<noteq> Some r')"
      then obtain k where k: "k < length rest" "b' = Some (fst (rest ! k))" "?D (rest ! k) = Some r'"
         "r' < q" "\<forall>j<length rest. \<forall>p. ?D (rest ! j) = Some p \<longrightarrow> r' \<le> p"
         "\<forall>j<k. ?D (rest ! j) \<noteq> Some r'" by blast
      have all: "\<forall>j<length (m # rest). \<forall>p. ?D ((m # rest) ! j) = Some p \<longrightarrow> r' \<le> p"
      proof (intro allI impI)
        fix j p assume "j < length (m # rest)" "?D ((m # rest) ! j) = Some p"
        then show "r' \<le> p" using k q m by (cases j) auto
      qed
      have first: "\<forall>j<Suc k. ?D ((m # rest) ! j) \<noteq> Some r'"
      proof (intro allI impI)
        fix j assume "j < Suc k"
        then show "?D ((m # rest) ! j) \<noteq> Some r'" using k q m by (cases j) auto
      qed
      from k q all first show ?thesis by (intro exI [of _ "Suc k"]) simp
    qed
    with res show ?thesis by blast
  next
    case False
    then have same: "(case cand_dist vx vy cf c of None \<Rightarrow> (b, Fin r)
              | Some q \<Rightarrow> if q < r then (Some n, Fin q) else (b, Fin r)) = (b, Fin r)"
      by (cases "cand_dist vx vy cf c") auto
    from False have head: "\<forall>p. cand_dist vx vy cf c = Some p \<longrightarrow> r \<le> p"
      by (auto simp: not_less)
    from Cons.IH [OF wf, of b r]
    obtain b' r' where run: "scan_markers vx vy cf rest (b, Fin r) = Inr (b', Fin r')"
      and alt: "(b' = b \<and> r' = r \<and> (\<forall>k<length rest. \<forall>p. ?D (rest ! k) = Some p \<longrightarrow> r \<le> p)) \<or>
            (\<exists>k<length rest. b' = Some (fst (rest ! k)) \<and> ?D (rest ! k) = Some r' \<and> r' < r \<and>
               (\<forall>j<length rest. \<forall>p. ?D (rest ! j) = Some p \<longrightarrow> r' \<le> p) \<and>
               (\<forall>j<k. ?D (rest ! j) \<noteq> Some r'))"
      by blast
    have res: "scan_markers vx vy cf (m # rest) (b, Fin r) = Inr (b', Fin r')"
      using step same run by (simp add: m)
    from alt show ?thesis
    proof
      assume a: "b' = b \<and> r' = r \<and> (\<forall>k<length rest. \<forall>p. ?D (rest ! k) = Some p \<longrightarrow> r \<le> p)"
      have "\<forall>k<length (m # rest). \<forall>p. ?D ((m # rest) ! k) = Some p \<longrightarrow> r \<le> p"
      proof (intro allI impI)
        fix k p assume "k < length (m # rest)" "?D ((m # rest) ! k) = Some p"
        then show "r \<le> p" using a head m by (cases k) auto
      qed
      with a res show ?thesis by blast
    next
      assume "\<exists>k<length rest. b' = Some (fst (rest ! k)) \<and> ?D (rest ! k) = Some r' \<and> r' < r \<and>
               (\<forall>j<length rest. \<forall>p. ?D (rest ! j) = Some p \<longrightarrow> r' \<le> p) \<and>
               (\<forall>j<k. ?D (rest ! j) \<noteq> Some r')"
      then obtain k where k: "k < length rest" "b' = Some (fst (rest ! k))" "?D (rest ! k) = Some r'"
         "r' < r" "\<forall>j<length rest. \<forall>p. ?D (rest ! j) = Some p \<longrightarrow> r' \<le> p"
         "\<forall>j<k. ?D (rest ! j) \<noteq> Some r'" by blast
      have all: "\<forall>j<length (m # rest). \<forall>p. ?D ((m # rest) ! j) = Some p \<longrightarrow> r' \<le> p"
      proof (intro allI impI)
        fix j p assume "j < length (m # rest)" "?D ((m # rest) ! j) = Some p"
        then show "r' \<le> p" using k head m by (cases j) auto
      qed
      have first: "\<forall>j<Suc k. ?D ((m # rest) ! j) \<noteq> Some r'"
      proof (intro allI impI)
        fix j assume "j < Suc k"
        then show "?D ((m # rest) ! j) \<noteq> Some r'" using k head m by (cases j) auto
      qed
      have "\<exists>k<length (m # rest). b' = Some (fst ((m # rest) ! k)) \<and>
               ?D ((m # rest) ! k) = Some r' \<and> r' < r \<and>
               (\<forall>j<length (m # rest). \<forall>p. ?D ((m # rest) ! j) = Some p \<longrightarrow> r' \<le> p) \<and>
               (\<forall>j<k. ?D ((m # rest) ! j) \<noteq> Some r')"
        using k all first by (intro exI [of _ "Suc k"]) simp
      with res show ?thesis by blast
    qed
  qed
qed


lemma click_selected_joint:
  "selected_joint (fst (case compute_kinematics s of
                          (st1, Some e) \<Rightarrow> (st1, Some e)
                        | (st1, None) \<Rightarrow> set_frame env st1 (current_frame st1))) = selected_joint s"
proof (cases "compute_kinematics s")
  case (Pair st1 r)
  with compute_kinematics_same [of s] have "selected_joint st1 = selected_joint s"
    by (simp add: same_session_def)
  with Pair show ?thesis
    by (cases r) (simp_all add: set_frame_selected_joint)
qed

lemma on_video_click_spec:
  assumes "trc_data st = Some trc"
    and "scale_factor st \<noteq> 0"
    and "0 \<le> current_frame st"
    and "\<forall>m \<in> set (markers trc). fst m \<noteq> [] \<and> length (my (snd m)) = length (mx (snd m))"
  shows "((\<forall>k<length (markers trc). \<forall>q.
             cand_dist (fst (to_frame st pos)) (snd (to_frame st pos)) (current_frame st)
               (snd (markers trc ! k)) = Some q \<longrightarrow> 50 \<le> q) \<longrightarrow>
          on_video_click env st pos = (st, None)) \<and>
         (\<forall>k<length (markers trc). \<forall>q.
             cand_dist (fst (to_frame st pos)) (snd (to_frame st pos)) (current_frame st)
               (snd (markers trc ! k)) = Some q \<and> q < 50 \<and>
             (\<forall>j<length (markers trc). \<forall>p.
                cand_dist (fst (to_frame st pos)) (snd (to_frame st pos)) (current_frame st)
                  (snd (markers trc ! j)) = Some p \<longrightarrow> q \<le> p) \<and>
             (\<forall>j<k. cand_dist (fst (to_frame st pos)) (snd (to_frame st pos)) (current_frame st)
                  (snd (markers trc ! j)) \<noteq> Some q) \<longrightarrow>
             selected_joint (fst (on_video_click env st pos)) = Some (fst (markers trc ! k)))"
proof -
  let ?ms = "markers trc"
  let ?D = "\<lambda>m. cand_dist (fst (to_frame st pos)) (snd (to_frame st pos)) (current_frame st) (snd m)"
  from assms(4) have wf: "\<forall>m \<in> set ?ms. length (my (snd m)) = length (mx (snd m))" by simp
  from scan_spec [OF wf assms(3), of "fst (to_frame st pos)" "snd (to_frame st pos)" None 50]
  obtain b' r' where
    run: "scan_markers (fst (to_frame st pos)) (snd (to_frame st pos)) (current_frame st) ?ms
            (None, Fin 50) = Inr (b', Fin r')"
    and alt: "(b' = None \<and> r' = 50 \<and> (\<forall>k<length ?ms. \<forall>q. ?D (?ms ! k) = Some q \<longrightarrow> 50 \<le> q)) \<or>
            (\<exists>k<length ?ms. b' = Some (fst (?ms ! k)) \<and> ?D (?ms ! k) = Some r' \<and> r' < 50 \<and>
               (\<forall>j<length ?ms. \<forall>q. ?D (?ms ! j) = Some q \<longrightarrow> r' \<le> q) \<and>
               (\<forall>j<k. ?D (?ms ! j) \<noteq> Some r'))"
    by blast
  have click: "on_video_click env st pos =
      (if truthy b' then
         (case compute_kinematics (st\<lparr>selected_joint := b'\<rparr>) of
            (st1, Some e) \<Rightarrow> (st1, Some e)
          | (st1, None) \<Rightarrow> set_frame env st1 (current_frame st1))
       else (st, None))"
    using assms(1,2) run by (simp add: on_video_click_def Let_def)
  have none: "on_video_click env st pos = (st, None)"
    if far: "\<forall>k<length ?ms. \<forall>q. ?D (?ms ! k) = Some q \<longrightarrow> 50 \<le> q"
  proof -
    from alt far have "b' = None" by force
    with click show ?thesis by simp
  qed
  have some: "selected_joint (fst (on_video_click env st pos)) = Some (fst (?ms ! k))"
    if k: "k < length ?ms" and q: "?D (?ms ! k) = Some q" "q < 50"
      and least: "\<forall>j<length ?ms. \<forall>p. ?D (?ms ! j) = Some p \<longrightarrow> q \<le> p"
      and first: "\<forall>j<k. ?D (?ms ! j) \<noteq> Some q" for k q
  proof -
    from alt k q have "\<exists>i<length ?ms. b' = Some (fst (?ms ! i)) \<and> ?D (?ms ! i) = Some r' \<and> r' < 50 \<and>
               (\<forall>j<length ?ms. \<forall>q. ?D (?ms ! j) = Some q \<longrightarrow> r' \<le> q) \<and>
               (\<forall>j<i. ?D (?ms ! j) \<noteq> Some r')"
      by force
    then obtain i where i: "i < length ?ms" "b' = Some (fst (?ms ! i))" "?D (?ms ! i) = Some r'"
       "\<forall>j<length ?ms. \<forall>q. ?D (?ms ! j) = Some q \<longrightarrow> r' \<le> q" "\<forall>j<i. ?D (?ms ! j) \<noteq> Some r'"
      by blast
    from i(4) k q(1) have "r' \<le> q" by blast
    moreover from least i(1,3) have "q \<le> r'" by blast
    ultimately have eq: "r' = q" by simp
    have "i = k"
    proof (rule ccontr)
      assume "i \<noteq> k"
      then consider "i < k" | "k < i" by linarith
      then show False
      proof cases
        case 1
        with first i(3) eq show False by blast
      next
        case 2
        with i(5) q(1) eq show False by blast
      qed
    qed
    with i(2) have b: "b' = Some (fst (?ms ! k))" by simp
    from assms(4) k have "fst (?ms ! k) \<noteq> []" by simp
    with b click show ?thesis
      by (simp add: click_selected_joint)
  qed
  from none some show ?thesis by blast
qed


lemma hypot_vertical: "fl_hypot (Fin 0) (Fin d) = Fin \<bar>d\<bar>"
  by (simp add: fl_hypot_def not_less)

lemma click_dists:
  "cand_dist 10 vy 0 (snd (click_markers ! 0)) = Some \<bar>- 1 - vy\<bar>"
  "cand_dist 10 vy 0 (snd (click_markers ! 1)) = Some \<bar>30 - vy\<bar>"
  by (simp_all add: cand_dist_def click_markers_def x_absent_def hypot_vertical)

lemma click_session_frame: "to_frame click_session (a, b) = (real_of_int a, real_of_int b)"
  by (simp add: to_frame_def click_session_def init_app_def)

lemma click_session_ok:
  "trc_data click_session = Some \<lparr>frame_count = 2, data_rate = 30, markers = click_markers,
                                 marker_list = [''Hip'', ''Neck''], time = [Fin 0, Fin 1]\<rparr>"
  "scale_factor click_session \<noteq> 0" "0 \<le> current_frame click_session"
  "\<forall>m \<in> set click_markers. fst m \<noteq> [] \<and> length (my (snd m)) = length (mx (snd m))"
  by (simp_all add: click_session_def init_app_def click_markers_def)

text \<open>
  C6 as stated fails.  \<open>Hip\<close> at \<open>(10, -1)\<close> is not detected at frame 0 in the spec's sense, its
  \<open>y\<close> being the missing value; \<open>Neck\<close> at \<open>(10, 30)\<close> is, at distance 25 from a click at
  \<open>(10, 5)\<close>.  The click selects \<open>Hip\<close>.
\<close>

theorem click_counterexample:
  "\<not> spec_detected (snd (click_markers ! 0)) 0 \<and> spec_detected (snd (click_markers ! 1)) 0 \<and>
   cand_dist 10 5 0 (snd (click_markers ! 1)) = Some 25 \<and>
   selected_joint (fst (on_video_click env0 click_session (10, 5))) = Some ''Hip''"
proof -
  have d: "\<not> spec_detected (snd (click_markers ! 0)) 0" "spec_detected (snd (click_markers ! 1)) 0"
    by (simp_all add: spec_detected_def click_markers_def)
  have cf: "current_frame click_session = 0" by (simp add: click_session_def init_app_def)
  have least: "\<forall>j<length click_markers. \<forall>p.
      cand_dist 10 5 0 (snd (click_markers ! j)) = Some p \<longrightarrow> 6 \<le> p"
  proof (intro allI impI)
    fix j p assume "j < length click_markers" "cand_dist 10 5 0 (snd (click_markers ! j)) = Some p"
    moreover from this(1) have "j = 0 \<or> j = 1" by (auto simp: click_markers_def)
    ultimately show "6 \<le> p" using click_dists [of 5] by auto
  qed
  have h4: "\<forall>m \<in> set (markers \<lparr>frame_count = 2, data_rate = 30, markers = click_markers,
               marker_list = [''Hip'', ''Neck''], time = [Fin 0, Fin 1]\<rparr>).
               fst m \<noteq> [] \<and> length (my (snd m)) = length (mx (snd m))"
    using click_session_ok(4) by simp
  from on_video_click_spec [OF click_session_ok(1-3) h4, of "(10, 5)" env0]
  have "\<forall>k<length click_markers. \<forall>q.
             cand_dist 10 5 0 (snd (click_markers ! k)) = Some q \<and> q < 50 \<and>
             (\<forall>j<length click_markers. \<forall>p.
                cand_dist 10 5 0 (snd (click_markers ! j)) = Some p \<longrightarrow> q \<le> p) \<and>
             (\<forall>j<k. cand_dist 10 5 0 (snd (click_markers ! j)) \<noteq> Some q) \<longrightarrow>
             selected_joint (fst (on_video_click env0 click_session (10, 5))) =
               Some (fst (click_markers ! k))"
    by (simp add: click_session_frame cf)
  from this [rule_format, of 0 6] least click_dists [of 5]
  have "selected_joint (fst (on_video_click env0 click_session (10, 5))) = Some (fst (click_markers ! 0))"
    by (simp add: click_markers_def)
  with d click_dists [of 5] show ?thesis by (simp add: click_markers_def)
qed

text \<open>
  C6 as the code has it.  A marker takes part when it has a sample at the current frame
  whose \<open>x\<close> is positive and a number (\<open>y\<close> is not tested) and its distance to the click is a
  number.  When no such marker is closer than 50 pixels the handler returns the state as it
  was, selection included.  Otherwise the selected joint becomes the first marker, in the
  order of the scan, whose distance is the least.
\<close>

theorem nearest_marker_selected:
  assumes "trc_data st = Some trc"
    and "scale_factor st \<noteq> 0"
    and "0 \<le> current_frame st"
    and "\<forall>m \<in> set (markers trc). fst m \<noteq> [] \<and> length (my (snd m)) = length (mx (snd m))"
  shows "((\<forall>k<length (markers trc). \<forall>q.
             cand_dist (fst (to_frame st pos)) (snd (to_frame st pos)) (current_frame st)
               (snd (markers trc ! k)) = Some q \<longrightarrow> 50 \<le> q) \<longrightarrow>
          on_video_click env st pos = (st, None)) \<and>
         (\<forall>k<length (markers trc). \<forall>q.
             cand_dist (fst (to_frame st pos)) (snd (to_frame st pos)) (current_frame st)
               (snd (markers trc ! k)) = Some q \<and> q < 50 \<and>
             (\<forall>j<length (markers trc). \<forall>p.
                cand_dist (fst (to_frame st pos)) (snd (to_frame st pos)) (current_frame st)
                  (snd (markers trc ! j)) = Some p \<longrightarrow> q \<le> p) \<and>
             (\<forall>j<k. cand_dist (fst (to_frame st pos)) (snd (to_frame st pos)) (current_frame st)
                  (snd (markers trc ! j)) \<noteq> Some q) \<longrightarrow>
             selected_joint (fst (on_video_click env st pos)) = Some (fst (markers trc ! k)))"
  using on_video_click_spec [OF assms] .

theorem nearest_marker_selected_witness:
  "cand_dist 10 28 0 (snd (click_markers ! 0)) = Some 29 \<and>
   cand_dist 10 28 0 (snd (click_markers ! 1)) = Some 2 \<and>
   selected_joint (fst (on_video_click env0 click_session (10, 28))) = Some ''Neck'' \<and>
   cand_dist 10 100 0 (snd (click_markers ! 0)) = Some 101 \<and>
   cand_dist 10 100 0 (snd (click_markers ! 1)) = Some 70 \<and>
   on_video_click env0 click_session (10, 100) = (click_session, None)"
proof -
  have cf: "current_frame click_session = 0" by (simp add: click_session_def init_app_def)
  have two: "j = 0 \<or> j = 1" if "j < length click_markers" for j
    using that by (auto simp: click_markers_def)
  have least: "\<forall>j<length click_markers. \<forall>p.
      cand_dist 10 28 0 (snd (click_markers ! j)) = Some p \<longrightarrow> 2 \<le> p"
    using click_dists [of 28] by (auto dest!: two)
  have first: "\<forall>j<1. cand_dist 10 28 0 (snd (click_markers ! j)) \<noteq> Some 2"
    using click_dists [of 28] by simp
  have far: "\<forall>k<length click_markers. \<forall>q.
      cand_dist 10 100 0 (snd (click_markers ! k)) = Some q \<longrightarrow> 50 \<le> q"
    using click_dists [of 100] by (auto dest!: two)
  let ?trc = "\<lparr>frame_count = 2, data_rate = 30, markers = click_markers,
               marker_list = [''Hip'', ''Neck''], time = [Fin 0, Fin 1]\<rparr>"
  have h4: "\<forall>m \<in> set (markers ?trc). fst m \<noteq> [] \<and> length (my (snd m)) = length (mx (snd m))"
    using click_session_ok(4) by simp
  from nearest_marker_selected [OF click_session_ok(1-3) h4, of "(10, 28)" env0]
  have "\<forall>k<length click_markers. \<forall>q.
             cand_dist 10 28 0 (snd (click_markers ! k)) = Some q \<and> q < 50 \<and>
             (\<forall>j<length click_markers. \<forall>p.
                cand_dist 10 28 0 (snd (click_markers ! j)) = Some p \<longrightarrow> q \<le> p) \<and>
             (\<forall>j<k. cand_dist 10 28 0 (snd (click_markers ! j)) \<noteq> Some q) \<longrightarrow>
             selected_joint (fst (on_video_click env0 click_session (10, 28))) =
               Some (fst (click_markers ! k))"
    by (simp add: click_session_frame cf)
  from this [rule_format, of 1 2] least first click_dists [of 28]
  have a: "selected_joint (fst (on_video_click env0 click_session (10, 28))) = Some ''Neck''"
    by (simp add: click_markers_def)
  from nearest_marker_selected [OF click_session_ok(1-3) h4, of "(10, 100)" env0]
  have "(\<forall>k<length click_markers. \<forall>q.
             cand_dist 10 100 0 (snd (click_markers ! k)) = Some q \<longrightarrow> 50 \<le> q) \<longrightarrow>
          on_video_click env0 click_session (10, 100) = (click_session, None)"
    by (simp add: click_session_frame cf)
  with far have b: "on_video_click env0 click_session (10, 100) = (click_session, None)"
    by blast
  from a b click_dists [of 28] click_dists [of 100] show ?thesis by simp
qed

subsection \<open>The smoothing weights\<close>

text \<open>
  The table is the least-squares cubic fit on eleven equally spaced samples: it is symmetric,
  it is a projection (applied to any of its own rows it gives the row back, scaled by the
  denominator), it keeps every polynomial of degree at most 3, and its trace is 4, the
  dimension of the cubics.
\<close>

lemma sg_table_symmetric: "transpose sg_table = sg_table"
  by code_simp

lemma sg_table_idempotent: "list_all (\<lambda>row. mat_vec sg_table row = map ((*) sg_denom) row) sg_table"
  by code_simp

lemma sg_table_keeps_cubics:
  "list_all (\<lambda>k. mat_vec sg_table (map (\<lambda>j. j ^ k) [0..10]) = map (\<lambda>j. sg_denom * j ^ k) [0..10])
            [0, 1, 2, 3]"
  by code_simp

lemma sg_table_trace: "sum_list (map (\<lambda>i. sg_table ! i ! i) [0..<11]) = 4 * sg_denom"
  by code_simp

text \<open>Away from the ends the filter is the familiar 11-point cubic smoother.\<close>

lemma sg_table_centre: "sg_table ! 5 = map ((*) 2) [- 36, 9, 44, 69, 84, 89, 84, 69, 44, 9, - 36]"
  by code_simp

end
